theory Spec2Isabelle
  imports Complex_Main
begin

section \<open>Optimal racing line: configuration records and the grip model\<close>

text \<open>
  Source: \<^verbatim>\<open>Code/Core/OptimalLine/optimal_line_generator.py\<close>, class
  \<^verbatim>\<open>OptimalLineGenerator\<close>. Python floats are modelled as \<^typ>\<open>real\<close>: rounding,
  infinities and NaN are outside the model. A configuration dict becomes a record; a key
  that the code reads with \<^verbatim>\<open>dict.get(key, default)\<close> is an optional field, a key that
  \<^verbatim>\<open>_validate_inputs\<close> requires is a plain field.
\<close>

record vehicle_config =
  top_speed_ms :: real
  tire_friction_dry :: real
  tire_friction_wet :: "real option"
  tire_friction_intermediate :: "real option"
  optimal_tire_temp :: "real option"
  max_lateral_g :: real
  max_brake_g :: real
  max_accel_g :: real
  corner_speed_factor :: real

record weather_config =
  track_temp :: real
  rainfall :: "real option"

text \<open>\<^verbatim>\<open>d.get(key, default)\<close> on an optional field.\<close>

definition dict_get :: "'a option \<Rightarrow> 'a \<Rightarrow> 'a" where
  "dict_get field dflt = (case field of None \<Rightarrow> dflt | Some v \<Rightarrow> v)"

definition get_default_vehicle_config :: vehicle_config where
  "get_default_vehicle_config =
     \<lparr> top_speed_ms = 67,
       tire_friction_dry = 140 / 100,
       tire_friction_wet = Some (70 / 100),
       tire_friction_intermediate = Some 1,
       optimal_tire_temp = Some 85,
       max_lateral_g = 135 / 100,
       max_brake_g = 150 / 100,
       max_accel_g = 85 / 100,
       corner_speed_factor = 92 / 100 \<rparr>"

definition get_default_weather_config :: weather_config where
  "get_default_weather_config = \<lparr> track_temp = 85, rainfall = Some 0 \<rparr>"

text \<open>\<^verbatim>\<open>_calculate_tire_grip\<close>, lines 101 to 132, statement by statement.\<close>

definition calculate_tire_grip :: "vehicle_config \<Rightarrow> weather_config \<Rightarrow> real" where
  "calculate_tire_grip vehicle weather =
     (let base_friction = tire_friction_dry vehicle;
          optimal_temp = dict_get (optimal_tire_temp vehicle) 85;
          temp_diff = \<bar>track_temp weather - optimal_temp\<bar>;
          temp_factor0 = 1 - (temp_diff / 100) * (3 / 10);
          temp_factor = max (4 / 10) (min 1 temp_factor0);
          rain = dict_get (rainfall weather) 0;
          effective_friction =
            (if rain > 10 then dict_get (tire_friction_wet vehicle) (70 / 100)
             else if rain > 2 then dict_get (tire_friction_intermediate vehicle) 1
             else if rain > 1 / 10 then base_friction * (85 / 100)
             else base_friction)
      in effective_friction * temp_factor)"

subsection \<open>The grip model as the specification words it\<close>

definition clamp :: "real \<Rightarrow> real \<Rightarrow> real \<Rightarrow> real" where
  "clamp x lo hi = (if x < lo then lo else if hi < x then hi else x)"

definition spec_temp_factor :: "real \<Rightarrow> real \<Rightarrow> real" where
  "spec_temp_factor trackTemp optimalTemp =
     clamp (1 - \<bar>trackTemp - optimalTemp\<bar> / 100 * (3 / 10)) (4 / 10) 1"

definition spec_selected_friction :: "real \<Rightarrow> real \<Rightarrow> real \<Rightarrow> real \<Rightarrow> real" where
  "spec_selected_friction dry wet intermediate rain =
     (if rain > 10 then wet
      else if rain > 2 then intermediate
      else if rain > 1 / 10 then dry * (85 / 100)
      else dry)"

definition spec_effective_grip :: "vehicle_config \<Rightarrow> weather_config \<Rightarrow> real" where
  "spec_effective_grip vehicle weather =
     spec_selected_friction (tire_friction_dry vehicle)
        (dict_get (tire_friction_wet vehicle) (70 / 100))
        (dict_get (tire_friction_intermediate vehicle) 1)
        (dict_get (rainfall weather) 0)
     * spec_temp_factor (track_temp weather) (dict_get (optimal_tire_temp vehicle) 85)"

section \<open>Optimal racing line: the generator object\<close>

text \<open>
  What a call can end in besides a result: a Python exception, or \<^verbatim>\<open>return None\<close>
  (\<open>ReturnsNone\<close>, used by the track processor). \<open>SciPyError\<close> stands for an exception
  raised inside a SciPy routine.
\<close>

datatype failure =
  IndexError | KeyError | ValueError | ZeroDivisionError | SciPyError nat | ReturnsNone

text \<open>
  The centerline is a pandas DataFrame with the columns \<^verbatim>\<open>x\<close>, \<^verbatim>\<open>y\<close> and
  \<^verbatim>\<open>distance\<close>; the three columns of a DataFrame have one length, so it is a list of rows.
\<close>

record cl_row =
  cl_x :: real
  cl_y :: real
  cl_distance :: real

text \<open>
  The attributes of an \<^verbatim>\<open>OptimalLineGenerator\<close> instance. \<open>self_vehicle\<close> and
  \<open>self_weather\<close> are the caller's dicts themselves when the caller supplied them: line 38
  and line 41 store the reference, they take no copy.
\<close>

record generator =
  self_centerline :: "cl_row list"
  self_track_width :: real
  self_vehicle :: vehicle_config
  self_weather :: weather_config
  self_center_x :: "real list"
  self_center_y :: "real list"
  self_distance :: "real list"
  self_track_length :: real
  self_effective_grip :: real

text \<open>
  \<^verbatim>\<open>__init__\<close>, lines 24 to 55. \<^verbatim>\<open>_validate_inputs\<close> checks that columns and keys
  exist, which the record types already say. \<^verbatim>\<open>self.distance[-1]\<close> raises IndexError on
  an empty centerline.
\<close>

definition init_generator ::
  "cl_row list \<Rightarrow> real \<Rightarrow> vehicle_config option \<Rightarrow> weather_config option
     \<Rightarrow> failure + generator" where
  "init_generator track_centerline track_width vehicle_cfg weather_cfg =
     (let vehicle = dict_get vehicle_cfg get_default_vehicle_config;
          weather = dict_get weather_cfg get_default_weather_config
      in if track_centerline = [] then Inl IndexError
         else Inr \<lparr> self_centerline = track_centerline,
                    self_track_width = track_width,
                    self_vehicle = vehicle,
                    self_weather = weather,
                    self_center_x = map cl_x track_centerline,
                    self_center_y = map cl_y track_centerline,
                    self_distance = map cl_distance track_centerline,
                    self_track_length = last (map cl_distance track_centerline),
                    self_effective_grip = calculate_tire_grip vehicle weather \<rparr>)"




section \<open>Optimal racing line: \<^verbatim>\<open>generate_optimal_line\<close>\<close>

text \<open>
  The SciPy routines the method calls are parameters of the model: \<open>splprep xs ys s\<close> is
  \<^verbatim>\<open>splprep([xs, ys], s=s, per=True, k=3)\<close> and returns the spline or the exception it
  raised, \<open>splev u tck der\<close> is \<^verbatim>\<open>splev(u, tck, der=der)\<close>, and
  \<open>gaussian_filter1d a sigma\<close> is the filter.
\<close>

record 'tck scipy =
  splprep :: "real list \<Rightarrow> real list \<Rightarrow> real \<Rightarrow> failure + 'tck"
  splev :: "real list \<Rightarrow> 'tck \<Rightarrow> nat \<Rightarrow> real list \<times> real list"
  gaussian_filter1d :: "real list \<Rightarrow> real \<Rightarrow> real list"

record optimal_line =
  ol_x :: "real list"
  ol_y :: "real list"
  ol_distance :: "real list"
  ol_speed :: "real list"
  ol_curvature :: "real list"
  ol_grip_coefficient :: real
  ol_lap_time :: real

text \<open>
  Step 1, lines 163 to 174: the loop over \<^verbatim>\<open>range(1, len(self.center_x))\<close> that keeps a
  point when it is at least \<^verbatim>\<open>min_spacing\<close> away from the last kept one.
\<close>

fun clean_loop :: "real list \<Rightarrow> real list \<Rightarrow> (real \<times> real) list \<Rightarrow> real list \<times> real list" where
  "clean_loop cleaned_x cleaned_y [] = (cleaned_x, cleaned_y)"
| "clean_loop cleaned_x cleaned_y ((xi, yi) # rest) =
     (let dx = xi - last cleaned_x;
          dy = yi - last cleaned_y;
          dist = sqrt (dx * dx + dy * dy)
      in if dist \<ge> 1 / 10
         then clean_loop (cleaned_x @ [xi]) (cleaned_y @ [yi]) rest
         else clean_loop cleaned_x cleaned_y rest)"

definition clean_points :: "generator \<Rightarrow> real list \<times> real list" where
  "clean_points self =
     clean_loop [hd (self_center_x self)] [hd (self_center_y self)]
       (zip (tl (self_center_x self)) (tl (self_center_y self)))"

text \<open>
  Lines 184 to 190, the fit with its retry. The first component of the result lists the
  \<^verbatim>\<open>s\<close> argument of every \<^verbatim>\<open>splprep\<close> call made, in order.
\<close>

definition fit_centerline ::
  "'tck scipy \<Rightarrow> real list \<Rightarrow> real list \<Rightarrow> real list \<times> (failure + 'tck)" where
  "fit_centerline lib cleaned_x cleaned_y =
     (case splprep lib cleaned_x cleaned_y 0 of
        Inr tck \<Rightarrow> ([0], Inr tck)
      | Inl e \<Rightarrow> ([0, 10], splprep lib cleaned_x cleaned_y 10))"

text \<open>\<^verbatim>\<open>np.linspace(0, 1, n_points, endpoint=False)\<close>.\<close>

definition linspace_open :: "nat \<Rightarrow> real list" where
  "linspace_open n = map (\<lambda>i. real i / real n) [0..<n]"

text \<open>Lines 203 to 206: the distance array, filled in place from index 1 on.\<close>

definition distance_step :: "real list \<Rightarrow> real list \<Rightarrow> nat \<Rightarrow> real list \<Rightarrow> real list" where
  "distance_step center_x center_y i distance =
     (let ds = sqrt ((center_x ! i - center_x ! (i - 1))\<^sup>2 + (center_y ! i - center_y ! (i - 1))\<^sup>2)
      in distance[i := distance ! (i - 1) + ds])"

definition distance_array :: "nat \<Rightarrow> real list \<Rightarrow> real list \<Rightarrow> real list" where
  "distance_array n_points center_x center_y =
     fold (distance_step center_x center_y) [1..<n_points] (replicate n_points 0)"

text \<open>The curvature expression of lines 210 and 234, operation by operation on arrays.\<close>

definition curvature_of ::
  "real list \<Rightarrow> real list \<Rightarrow> real list \<Rightarrow> real list \<Rightarrow> real list \<Rightarrow> real list" where
  "curvature_of dx dy d2x d2y tangent_len =
     map2 (/) (map abs (map2 (-) (map2 (*) dx d2y) (map2 (*) dy d2x)))
              (map (\<lambda>t. t ^ 3) tangent_len)"

definition gravity :: real where
  "gravity = 981 / 100"

text \<open>Step 6, lines 239 to 246: the cornering speed limit, capped at the top speed.\<close>

definition max_speed_lateral_of :: "generator \<Rightarrow> real list \<Rightarrow> real list" where
  "max_speed_lateral_of self curvature_race =
     (let corner_radius = map (\<lambda>c. 1 / c) curvature_race;
          max_speed_lateral =
            map (\<lambda>r. sqrt (self_effective_grip self * gravity * r
                              * corner_speed_factor (self_vehicle self))) corner_radius
      in map (\<lambda>v. min v (top_speed_ms (self_vehicle self))) max_speed_lateral)"

text \<open>Lines 248 to 255, the forward pass, and lines 257 to 261, the backward pass.\<close>

definition forward_step :: "vehicle_config \<Rightarrow> real list \<Rightarrow> real list \<Rightarrow> nat \<Rightarrow> real list \<Rightarrow> real list" where
  "forward_step vehicle max_speed_lateral distance i speeds =
     (let ds = distance ! i - distance ! (i - 1);
          v_max_accel = sqrt ((speeds ! (i - 1))\<^sup>2 + 2 * max_accel_g vehicle * gravity * ds)
      in speeds[i := min (max_speed_lateral ! i) v_max_accel])"

definition forward_pass :: "vehicle_config \<Rightarrow> nat \<Rightarrow> real list \<Rightarrow> real list \<Rightarrow> real list" where
  "forward_pass vehicle n_points max_speed_lateral distance =
     fold (forward_step vehicle max_speed_lateral distance) [1..<n_points]
       ((replicate n_points 0)[0 := max_speed_lateral ! 0])"

definition backward_step :: "vehicle_config \<Rightarrow> real list \<Rightarrow> nat \<Rightarrow> real list \<Rightarrow> real list" where
  "backward_step vehicle distance i speeds =
     (let ds = distance ! (i + 1) - distance ! i;
          v_max_brake = sqrt ((speeds ! (i + 1))\<^sup>2 + 2 * max_brake_g vehicle * gravity * ds)
      in speeds[i := min (speeds ! i) v_max_brake])"

definition backward_pass :: "vehicle_config \<Rightarrow> nat \<Rightarrow> real list \<Rightarrow> real list \<Rightarrow> real list" where
  "backward_pass vehicle n_points distance speeds =
     fold (backward_step vehicle distance) (rev [0..<n_points - 1]) speeds"

definition solve_speeds :: "vehicle_config \<Rightarrow> nat \<Rightarrow> real list \<Rightarrow> real list \<Rightarrow> real list" where
  "solve_speeds vehicle n_points max_speed_lateral distance =
     backward_pass vehicle n_points distance
       (forward_pass vehicle n_points max_speed_lateral distance)"

text \<open>Lines 264 to 269, the lap time.\<close>

definition lap_time_of :: "real list \<Rightarrow> real list \<Rightarrow> real" where
  "lap_time_of distance speeds =
     sum_list (map (\<lambda>i. (distance ! (i + 1) - distance ! i)
                          / max ((speeds ! i + speeds ! (i + 1)) / 2) 1)
                   [0..<length distance - 1])"

text \<open>
  Lines 191 to 284: everything after the centerline fit. The fit of the racing line
  (line 230) can raise; \<^verbatim>\<open>speeds[0]\<close> raises IndexError when \<^verbatim>\<open>n_points\<close> is 0. The
  first component is again the list of \<^verbatim>\<open>splprep\<close> calls.
\<close>

definition line_from_fit ::
  "'tck scipy \<Rightarrow> generator \<Rightarrow> nat \<Rightarrow> 'tck \<Rightarrow> real list \<times> (failure + optimal_line)" where
  "line_from_fit lib self n_points tck =
     (let u_fine = linspace_open n_points;
          (center_x, center_y) = splev lib u_fine tck 0;
          (dx, dy) = splev lib u_fine tck 1;
          tangent_len = map2 (\<lambda>a b. sqrt (a\<^sup>2 + b\<^sup>2)) dx dy;
          tangent_x = map2 (/) dx tangent_len;
          tangent_y = map2 (/) dy tangent_len;
          normal_x = map uminus tangent_y;
          normal_y = tangent_x;
          distance = distance_array n_points center_x center_y;
          (d2x, d2y) = splev lib u_fine tck 2;
          curvature_center = gaussian_filter1d lib (curvature_of dx dy d2x d2y tangent_len) 15;
          max_offset = self_track_width self / 2 * (9 / 10);
          grip_factor = self_effective_grip self / tire_friction_dry (self_vehicle self);
          lateral_offsets0 =
            map2 (*) (map (\<lambda>c. - sgn c) curvature_center)
                     (map (\<lambda>c. min (\<bar>c\<bar> * 800 * grip_factor) max_offset) curvature_center);
          lateral_offsets = gaussian_filter1d lib lateral_offsets0 20;
          race_x = map2 (+) center_x (map2 (*) lateral_offsets normal_x);
          race_y = map2 (+) center_y (map2 (*) lateral_offsets normal_y)
      in case splprep lib race_x race_y 10 of
           Inl e \<Rightarrow> ([10], Inl e)
         | Inr race_tck \<Rightarrow>
            (let (race_dx, race_dy) = splev lib u_fine race_tck 1;
                 (race_d2x, race_d2y) = splev lib u_fine race_tck 2;
                 race_tangent_len = map2 (\<lambda>a b. sqrt (a\<^sup>2 + b\<^sup>2)) race_dx race_dy;
                 curvature_race0 =
                   gaussian_filter1d lib
                     (curvature_of race_dx race_dy race_d2x race_d2y race_tangent_len) 10;
                 curvature_race = map (\<lambda>c. max c (1 / 1000000)) curvature_race0;
                 max_speed_lateral = max_speed_lateral_of self curvature_race
             in if n_points = 0 then ([10], Inl IndexError)
                else
                  (let speeds = solve_speeds (self_vehicle self) n_points max_speed_lateral distance;
                       lap_time = lap_time_of distance speeds
                   in ([10], Inr \<lparr> ol_x = race_x,
                                    ol_y = race_y,
                                    ol_distance = distance,
                                    ol_speed = speeds,
                                    ol_curvature = curvature_race,
                                    ol_grip_coefficient = self_effective_grip self,
                                    ol_lap_time = lap_time \<rparr>))))"

text \<open>
  \<^verbatim>\<open>generate_optimal_line\<close>, lines 134 to 284. \<^verbatim>\<open>self.center_x[0]\<close> raises
  IndexError on an empty array (no generator built by \<^verbatim>\<open>__init__\<close> has one), and fewer
  than four cleaned points raise ValueError before any fit is tried.
\<close>

definition generate_optimal_line ::
  "'tck scipy \<Rightarrow> generator \<Rightarrow> nat \<Rightarrow> real list \<times> (failure + optimal_line)" where
  "generate_optimal_line lib self n_points =
     (let (cleaned_x, cleaned_y) = clean_points self
      in if self_center_x self = [] \<or> self_center_y self = [] then ([], Inl IndexError)
         else if length cleaned_x < 4 then ([], Inl ValueError)
         else
           (case fit_centerline lib cleaned_x cleaned_y of
              (calls, Inl e) \<Rightarrow> (calls, Inl e)
            | (calls, Inr tck) \<Rightarrow>
                (let (calls2, res) = line_from_fit lib self n_points tck
                 in (calls @ calls2, res))))"

section \<open>The contract assumed of SciPy\<close>


section \<open>Track processor: data\<close>

text \<open>
  Source: \<^verbatim>\<open>Code/Core/MapCreator/track_processor.py\<close>, class \<^verbatim>\<open>TrackProcessor\<close>.
  A projected point is a dict with the keys \<^verbatim>\<open>x\<close> and \<^verbatim>\<open>y\<close>, a raw point (an OSM node)
  one with \<^verbatim>\<open>lat\<close> and \<^verbatim>\<open>lon\<close>; \<^verbatim>\<open>finalize_track\<close> may add the key \<^verbatim>\<open>z\<close> to either,
  so \<^verbatim>\<open>z\<close> is an optional field.
\<close>

record point =
  pt_x :: real
  pt_y :: real
  pt_z :: "real option"

record raw_point =
  rp_lat :: real
  rp_lon :: real
  rp_z :: "real option"

datatype path_type = Track | Pit

text \<open>
  One entry of \<^verbatim>\<open>all_paths\<close>. The display string \<^verbatim>\<open>widthLabel\<close> is left out: it is
  formatted from a float and nothing reads it.
\<close>

record path =
  path_id :: int
  points :: "point list"
  rawPoints :: "raw_point list"
  path_type :: path_type
  widthValue :: real

text \<open>
  \<^verbatim>\<open>boundsMeters\<close>: a bound is \<open>None\<close> while it still holds the infinity it was
  initialised with.
\<close>

record bounds_meters =
  minX :: "real option"
  maxX :: "real option"
  minY :: "real option"
  maxY :: "real option"

record track_data =
  td_name :: string
  paths :: "path list"
  center_lat :: real
  center_lon :: real
  boundsMeters :: bounds_meters

text \<open>
  The elements of an Overpass answer. A way's \<^verbatim>\<open>nodes\<close> key may be missing; a missing
  \<^verbatim>\<open>tags\<close> key is read as the empty dict (\<^verbatim>\<open>way.get('tags', {})\<close>).
\<close>

record way =
  way_id :: int
  way_nodes :: "int list option"
  way_tags :: "string \<rightharpoonup> string"

datatype element = NodeEl int real real | WayEl way | OtherEl

text \<open>\<^verbatim>\<open>d < m\<close> for \<open>m\<close> initialised with \<^verbatim>\<open>float('inf')\<close>, and \<^verbatim>\<open>d > m\<close> for \<^verbatim>\<open>float('-inf')\<close>.\<close>

definition lt_inf :: "real \<Rightarrow> real option \<Rightarrow> bool" where
  "lt_inf d m = (case m of None \<Rightarrow> True | Some v \<Rightarrow> d < v)"

definition gt_neg_inf :: "real \<Rightarrow> real option \<Rightarrow> bool" where
  "gt_neg_inf d m = (case m of None \<Rightarrow> True | Some v \<Rightarrow> d > v)"

definition earth_R :: real where
  "earth_R = 6378137"

text \<open>\<^verbatim>\<open>project_to_local_meters\<close>, lines 17 to 30, and \<^verbatim>\<open>get_distance_meters\<close>, lines 32 to 34.\<close>

definition project_to_local_meters :: "real \<Rightarrow> real \<Rightarrow> real \<Rightarrow> real \<Rightarrow> point" where
  "project_to_local_meters la lo c_lat c_lon =
     (let dLat = (la - c_lat) * pi / 180;
          dLon = (lo - c_lon) * pi / 180;
          latRad = c_lat * pi / 180;
          x = earth_R * dLon * cos latRad;
          y = earth_R * dLat
      in \<lparr> pt_x = x, pt_y = y, pt_z = None \<rparr>)"

definition get_distance_meters :: "('a point_scheme) \<Rightarrow> ('b point_scheme) \<Rightarrow> real" where
  "get_distance_meters p1 p2 = sqrt ((pt_x p2 - pt_x p1)\<^sup>2 + (pt_y p2 - pt_y p1)\<^sup>2)"

section \<open>Track processor: \<^verbatim>\<open>process_osm_data\<close>\<close>

text \<open>Lines 41 to 65: one pass over the elements fills \<^verbatim>\<open>nodes\<close> and \<^verbatim>\<open>ways\<close>.\<close>

record parse_state =
  ps_nodes :: "int \<rightharpoonup> raw_point"
  ps_ways :: "way list"
  ps_seen_ways :: "int set"
  ps_min_lat :: "real option"
  ps_max_lat :: "real option"
  ps_min_lon :: "real option"
  ps_max_lon :: "real option"

fun parse_element :: "element \<Rightarrow> parse_state \<Rightarrow> parse_state" where
  "parse_element (NodeEl i la lo) st =
     st\<lparr> ps_nodes := (ps_nodes st)(i \<mapsto> \<lparr> rp_lat = la, rp_lon = lo, rp_z = None \<rparr>),
         ps_min_lat := (if lt_inf la (ps_min_lat st) then Some la else ps_min_lat st),
         ps_max_lat := (if gt_neg_inf la (ps_max_lat st) then Some la else ps_max_lat st),
         ps_min_lon := (if lt_inf lo (ps_min_lon st) then Some lo else ps_min_lon st),
         ps_max_lon := (if gt_neg_inf lo (ps_max_lon st) then Some lo else ps_max_lon st) \<rparr>"
| "parse_element (WayEl w) st =
     (if way_id w \<notin> ps_seen_ways st
      then st\<lparr> ps_ways := ps_ways st @ [w], ps_seen_ways := insert (way_id w) (ps_seen_ways st) \<rparr>
      else st)"
| "parse_element OtherEl st = st"

definition parse_elements :: "element list \<Rightarrow> parse_state" where
  "parse_elements elements =
     fold parse_element elements
       \<lparr> ps_nodes = Map.empty, ps_ways = [], ps_seen_ways = {},
         ps_min_lat = None, ps_max_lat = None, ps_min_lon = None, ps_max_lon = None \<rparr>"

text \<open>
  Lines 75 to 87: the way whose first node is nearest the pit anchor. \<^verbatim>\<open>way['nodes']\<close>
  raises KeyError on a way without that key.
\<close>

fun find_pit_lane ::
  "(int \<rightharpoonup> raw_point) \<Rightarrow> real \<times> real \<Rightarrow> way list \<Rightarrow> real option \<Rightarrow> int option
     \<Rightarrow> failure + int option" where
  "find_pit_lane nodes anchor [] min_dist pit_lane_id = Inr pit_lane_id"
| "find_pit_lane nodes anchor (w # ws) min_dist pit_lane_id =
     (case way_nodes w of
        None \<Rightarrow> Inl KeyError
      | Some [] \<Rightarrow> find_pit_lane nodes anchor ws min_dist pit_lane_id
      | Some (n0 # _) \<Rightarrow>
         (case nodes n0 of
            None \<Rightarrow> find_pit_lane nodes anchor ws min_dist pit_lane_id
          | Some first_node \<Rightarrow>
             (let d_lat = (fst anchor - rp_lat first_node) * 111000;
                  d_lon = (snd anchor - rp_lon first_node) * 111000;
                  d = sqrt (d_lat\<^sup>2 + d_lon\<^sup>2)
              in if lt_inf d min_dist
                 then find_pit_lane nodes anchor ws (Some d) (Some (way_id w))
                 else find_pit_lane nodes anchor ws min_dist pit_lane_id)))"

text \<open>Python's truth value of \<^verbatim>\<open>tags.get(key)\<close>: the key is there and its string is not empty.\<close>

definition tag_truthy :: "(string \<rightharpoonup> string) \<Rightarrow> string \<Rightarrow> bool" where
  "tag_truthy tags k = (case tags k of None \<Rightarrow> False | Some v \<Rightarrow> v \<noteq> [])"

text \<open>\<^verbatim>\<open>'pit' in name.lower()\<close>, for ASCII names.\<close>

definition lower_char :: "char \<Rightarrow> char" where
  "lower_char c =
     (if 65 \<le> (of_char c :: nat) \<and> (of_char c :: nat) \<le> 90
      then char_of ((of_char c :: nat) + 32) else c)"

fun is_prefix :: "'a list \<Rightarrow> 'a list \<Rightarrow> bool" where
  "is_prefix [] ys = True"
| "is_prefix (x # xs) [] = False"
| "is_prefix (x # xs) (y # ys) = (x = y \<and> is_prefix xs ys)"

fun contains :: "'a list \<Rightarrow> 'a list \<Rightarrow> bool" where
  "contains sub [] = (sub = [])"
| "contains sub (c # cs) = (is_prefix sub (c # cs) \<or> contains sub cs)"

text \<open>
  Lines 96 to 164, the body of the loop over the ways. \<open>parse_width\<close> stands for lines
  147 to 153: the leading run of digits and dots of the \<^verbatim>\<open>width\<close> tag as a float, or
  nothing when there is none or \<^verbatim>\<open>float\<close> rejects it.
\<close>

record filter_state =
  fs_all_paths :: "path list"
  fs_bounds :: bounds_meters

definition extend_bounds :: "bounds_meters \<Rightarrow> point \<Rightarrow> bounds_meters" where
  "extend_bounds b m =
     \<lparr> minX = (if lt_inf (pt_x m) (minX b) then Some (pt_x m) else minX b),
       maxX = (if gt_neg_inf (pt_x m) (maxX b) then Some (pt_x m) else maxX b),
       minY = (if lt_inf (pt_y m) (minY b) then Some (pt_y m) else minY b),
       maxY = (if gt_neg_inf (pt_y m) (maxY b) then Some (pt_y m) else maxY b) \<rparr>"

definition resolve_nodes :: "(int \<rightharpoonup> raw_point) \<Rightarrow> int list \<Rightarrow> raw_point list" where
  "resolve_nodes nodes ids = List.map_filter nodes ids"

definition way_filtered :: "int option \<Rightarrow> way \<Rightarrow> bool" where
  "way_filtered pit_lane_id w =
     (((pit_lane_id \<noteq> None \<and> pit_lane_id \<noteq> Some 0) \<and> Some (way_id w) \<noteq> pit_lane_id
        \<and> way_tags w ''highway'' = Some ''service'')
      \<or> tag_truthy (way_tags w) ''barrier'' \<or> tag_truthy (way_tags w) ''wall''
      \<or> tag_truthy (way_tags w) ''building'')"

definition way_is_pit :: "int option \<Rightarrow> way \<Rightarrow> bool" where
  "way_is_pit pit_lane_id w =
     (Some (way_id w) = pit_lane_id
      \<or> way_tags w ''service'' = Some ''pit_lane''
      \<or> contains ''pit'' (map lower_char (dict_get (way_tags w ''name'') '''')))"

definition way_width :: "(string \<Rightarrow> real option) \<Rightarrow> int option \<Rightarrow> way \<Rightarrow> real" where
  "way_width parse_width pit_lane_id w =
     (let width_value = (if way_is_pit pit_lane_id w then 5 else 12)
      in case way_tags w ''width'' of
           None \<Rightarrow> width_value
         | Some width_str \<Rightarrow> dict_get (parse_width width_str) width_value)"

definition process_way ::
  "(string \<Rightarrow> real option) \<Rightarrow> (int \<rightharpoonup> raw_point) \<Rightarrow> real \<Rightarrow> real \<Rightarrow> int option
     \<Rightarrow> way \<Rightarrow> filter_state \<Rightarrow> filter_state" where
  "process_way parse_width nodes c_lat c_lon pit_lane_id w st =
     (case way_nodes w of
        None \<Rightarrow> st
      | Some ids \<Rightarrow>
         if length ids < 2 then st
         else
           (let pts = resolve_nodes nodes ids
            in if length pts < 2 then st
               else if way_filtered pit_lane_id w then st
               else
                 (let projected_points =
                        map (\<lambda>p. project_to_local_meters (rp_lat p) (rp_lon p) c_lat c_lon) pts
                  in \<lparr> fs_all_paths = fs_all_paths st @
                          [\<lparr> path_id = way_id w,
                             points = projected_points,
                             rawPoints = pts,
                             path_type = (if way_is_pit pit_lane_id w then Pit else Track),
                             widthValue = way_width parse_width pit_lane_id w \<rparr>],
                        fs_bounds = fold (\<lambda>m b. extend_bounds b m) projected_points (fs_bounds st) \<rparr>)))"

text \<open>
  \<^verbatim>\<open>process_osm_data\<close>, lines 36 to 181. \<open>osm_data\<close> is \<open>None\<close> for a false
  \<^verbatim>\<open>osm_data\<close> or one without the key \<^verbatim>\<open>elements\<close>; \<open>pit_anchor\<close> is \<open>None\<close> for the
  default argument. With no node at all the center is NaN in Python and every way is
  skipped; the model writes 0 for that center.
\<close>

definition mid_point :: "real option \<Rightarrow> real option \<Rightarrow> real" where
  "mid_point lo hi = (case (lo, hi) of (Some a, Some b) \<Rightarrow> (a + b) / 2 | _ \<Rightarrow> 0)"

definition process_osm_data ::
  "(string \<Rightarrow> real option) \<Rightarrow> element list option \<Rightarrow> string \<Rightarrow> (real \<times> real) option
     \<Rightarrow> failure + track_data" where
  "process_osm_data parse_width osm_data name pit_anchor =
     (case osm_data of
        None \<Rightarrow> Inl ReturnsNone
      | Some elements \<Rightarrow>
         (let st = parse_elements elements;
              nodes = ps_nodes st;
              ways = ps_ways st
          in if ways = [] then Inl ReturnsNone
             else
               (let c_lat = mid_point (ps_min_lat st) (ps_max_lat st);
                    c_lon = mid_point (ps_min_lon st) (ps_max_lon st)
                in case (case pit_anchor of
                           None \<Rightarrow> Inr None
                         | Some anchor \<Rightarrow> find_pit_lane nodes anchor ways None None) of
                     Inl e \<Rightarrow> Inl e
                   | Inr pit_lane_id \<Rightarrow>
                      (let fs = fold (process_way parse_width nodes c_lat c_lon pit_lane_id) ways
                                  \<lparr> fs_all_paths = [],
                                    fs_bounds = \<lparr> minX = None, maxX = None,
                                                  minY = None, maxY = None \<rparr> \<rparr>
                       in Inr \<lparr> td_name = name,
                                paths = fs_all_paths fs,
                                center_lat = c_lat,
                                center_lon = c_lon,
                                boundsMeters = fs_bounds fs \<rparr>))))"

section \<open>Track processor: \<^verbatim>\<open>finalize_track\<close>\<close>

text \<open>
  The two tests of lines 226 to 234, and again of lines 275 to 283: segment \<open>i\<close> replaces
  the best candidate when its head is strictly nearer, and again, reversed, when its
  tail is strictly nearer still. The index is \<open>None\<close> for the initial \<^verbatim>\<open>-1\<close>, the
  distance \<open>None\<close> for the initial infinity.
\<close>

definition nearer_end ::
  "nat \<Rightarrow> real \<Rightarrow> real \<Rightarrow> nat option \<times> real option \<times> bool \<Rightarrow> nat option \<times> real option \<times> bool" where
  "nearer_end i d_head d_tail acc =
     (let acc1 = (if lt_inf d_head (fst (snd acc)) then (Some i, Some d_head, False) else acc)
      in if lt_inf d_tail (fst (snd acc1)) then (Some i, Some d_tail, True) else acc1)"

text \<open>
  Lines 214 to 237: the segment whose head or tail is nearest the start/finish point.
  \<^verbatim>\<open>seg['points'][0]\<close> raises IndexError on a segment without points.
\<close>

fun find_start ::
  "point \<Rightarrow> path list \<Rightarrow> nat \<Rightarrow> nat option \<times> real option \<times> bool
     \<Rightarrow> failure + nat option \<times> real option \<times> bool" where
  "find_start sf_meters [] i acc = Inr acc"
| "find_start sf_meters (seg # segs) i acc =
     (if points seg = [] then Inl IndexError
      else find_start sf_meters segs (Suc i)
             (nearer_end i (get_distance_meters (hd (points seg)) sf_meters)
                           (get_distance_meters (last (points seg)) sf_meters) acc))"

text \<open>Lines 261 to 283: the unused segment whose head or tail is nearest the chain's tail.\<close>

fun find_next ::
  "point \<Rightarrow> nat set \<Rightarrow> path list \<Rightarrow> nat \<Rightarrow> nat option \<times> real option \<times> bool
     \<Rightarrow> failure + nat option \<times> real option \<times> bool" where
  "find_next tail used_indices [] ni acc = Inr acc"
| "find_next tail used_indices (n_seg # segs) ni acc =
     (if ni \<in> used_indices then find_next tail used_indices segs (Suc ni) acc
      else if points n_seg = [] then Inl IndexError
      else find_next tail used_indices segs (Suc ni)
             (nearer_end ni (get_distance_meters tail (hd (points n_seg)))
                            (get_distance_meters tail (last (points n_seg))) acc))"

text \<open>Line 285: the candidate is taken when there is one and its gap is below 50 m.\<close>

definition accepted :: "nat option \<times> real option \<times> bool \<Rightarrow> (nat \<times> bool) option" where
  "accepted found =
     (case (fst found, fst (snd found)) of
        (Some next_idx, Some min_gap) \<Rightarrow>
          if min_gap < 50 then Some (next_idx, snd (snd found)) else None
      | _ \<Rightarrow> None)"

text \<open>
  Lines 240 to 289: the greedy ordering, at most \<^verbatim>\<open>len(track_segs)\<close> rounds. The result
  lists, in chain order, the index of each chosen segment and whether it is reversed.
\<close>

fun order_loop ::
  "path list \<Rightarrow> nat \<Rightarrow> nat set \<Rightarrow> nat \<Rightarrow> bool \<Rightarrow> (nat \<times> bool) list
     \<Rightarrow> failure + (nat \<times> bool) list" where
  "order_loop track_segs 0 used_indices current_idx reverse ordered = Inr ordered"
| "order_loop track_segs (Suc rounds) used_indices current_idx reverse ordered =
     (let used = insert current_idx used_indices;
          seg = track_segs ! current_idx;
          pts = (if reverse then rev (points seg) else points seg);
          ordered1 = ordered @ [(current_idx, reverse)]
      in if pts = [] then Inr ordered1
         else
           (case find_next (last pts) used track_segs 0 (None, None, False) of
              Inl e \<Rightarrow> Inl e
            | Inr found \<Rightarrow>
               (case accepted found of
                  None \<Rightarrow> Inr ordered1
                | Some nxt \<Rightarrow> order_loop track_segs rounds used (fst nxt) (snd nxt) ordered1)))"

record ordered_segment =
  os_points :: "point list"
  os_rawPoints :: "raw_point list"
  os_width :: real
  os_id :: int

definition make_ordered :: "path list \<Rightarrow> nat \<times> bool \<Rightarrow> ordered_segment" where
  "make_ordered track_segs ir =
     (let seg = track_segs ! fst ir
      in \<lparr> os_points = (if snd ir then rev (points seg) else points seg),
           os_rawPoints = (if snd ir then rev (rawPoints seg) else rawPoints seg),
           os_width = widthValue seg,
           os_id = path_id seg \<rparr>)"

text \<open>
  A spline point is a dict with the keys \<^verbatim>\<open>x\<close>, \<^verbatim>\<open>y\<close>, \<^verbatim>\<open>z\<close>, \<^verbatim>\<open>lat\<close>, \<^verbatim>\<open>lon\<close>,
  \<^verbatim>\<open>dist\<close> and \<^verbatim>\<open>width\<close>.
\<close>

record spline_point = point +
  sp_lat :: real
  sp_lon :: real
  sp_dist :: real
  sp_width :: real

text \<open>
  Lines 361 to 402, the resampling with elevation. (Lines 291 to 326 run the same loop
  without elevation first; its result is overwritten at line 362, and it raises on the
  same inputs.) \<^verbatim>\<open>int(d)\<close> is the floor of \<open>d\<close>, which is above 1 there.
\<close>

definition interpolate ::
  "real \<Rightarrow> spline_point \<Rightarrow> point \<Rightarrow> raw_point \<Rightarrow> raw_point \<Rightarrow> real \<Rightarrow> real \<Rightarrow> nat
     \<Rightarrow> spline_point" where
  "interpolate width last_p p last_raw raw_p d total_distance s =
     (let t = real s / d;
          interp_lat = rp_lat last_raw + (rp_lat raw_p - rp_lat last_raw) * t;
          interp_lon = rp_lon last_raw + (rp_lon raw_p - rp_lon last_raw) * t;
          interp_z = dict_get (rp_z last_raw) 0
                       + (dict_get (rp_z raw_p) 0 - dict_get (rp_z last_raw) 0) * t
      in \<lparr> pt_x = pt_x last_p + (pt_x p - pt_x last_p) * t,
           pt_y = pt_y last_p + (pt_y p - pt_y last_p) * t,
           pt_z = Some interp_z,
           sp_lat = interp_lat,
           sp_lon = interp_lon,
           sp_dist = total_distance + real s,
           sp_width = width \<rparr>)"

definition resample_point ::
  "real \<Rightarrow> point \<times> raw_point \<times> raw_point \<Rightarrow> spline_point list \<times> real
     \<Rightarrow> spline_point list \<times> real" where
  "resample_point width ppr st =
     (let p = fst ppr; raw_p = fst (snd ppr); last_raw = snd (snd ppr);
          spline_points = fst st; total_distance = snd st;
          (spline_points1, total_distance1) =
             (if spline_points \<noteq> [] then
                (let last_p = last spline_points;
                     d = get_distance_meters last_p p
                 in ((if d > 1
                      then spline_points
                           @ map (interpolate width last_p p last_raw raw_p d total_distance)
                                 [1..<Suc (nat \<lfloor>d\<rfloor>)]
                      else spline_points),
                     total_distance + d))
              else (spline_points, total_distance))
      in (spline_points1
            @ [\<lparr> pt_x = pt_x p, pt_y = pt_y p, pt_z = Some (dict_get (rp_z raw_p) 0),
                 sp_lat = rp_lat raw_p, sp_lon = rp_lon raw_p,
                 sp_dist = total_distance1, sp_width = width \<rparr>],
          total_distance1))"

fun resample ::
  "ordered_segment list \<Rightarrow> spline_point list \<times> real \<Rightarrow> failure + spline_point list \<times> real" where
  "resample [] st = Inr st"
| "resample (seg # segs) st =
     (if length (os_rawPoints seg) < length (os_points seg) then Inl IndexError
      else resample segs
             (fold (resample_point (os_width seg))
                (zip (os_points seg)
                     (zip (os_rawPoints seg) (hd (os_rawPoints seg) # os_rawPoints seg)))
                st))"

text \<open>
  Elevation lookup. The fetcher answers a list of locations with a dict from rounded
  \<open>(lat, lon)\<close> keys to meters. \<^verbatim>\<open>round(v, 6)\<close> rounds half to even.
\<close>

definition round_half_even :: "real \<Rightarrow> int" where
  "round_half_even v =
     (let f = \<lfloor>v\<rfloor>; r = v - of_int f
      in if r < 1 / 2 then f else if r > 1 / 2 then f + 1 else if even f then f else f + 1)"

definition round6 :: "real \<Rightarrow> real" where
  "round6 v = of_int (round_half_even (v * 1000000)) / 1000000"

definition node_key :: "raw_point \<Rightarrow> real \<times> real" where
  "node_key node = (round6 (rp_lat node), round6 (rp_lon node))"

type_synonym fetcher = "(real \<times> real) list \<Rightarrow> (real \<times> real \<rightharpoonup> real)"

text \<open>Lines 334 to 339: the first node seen for every key, in order of first appearance.\<close>

fun unique_nodes :: "raw_point list \<Rightarrow> (real \<times> real) list \<Rightarrow> (real \<times> real) list" where
  "unique_nodes [] seen = []"
| "unique_nodes (node # rest) seen =
     (if node_key node \<in> set seen then unique_nodes rest seen
      else (rp_lat node, rp_lon node) # unique_nodes rest (node_key node # seen))"

text \<open>Lines 344 to 351: the batches of 200 and the merge of their answers.\<close>

definition fetch_node_elevations :: "fetcher \<Rightarrow> (real \<times> real) list \<Rightarrow> (real \<times> real \<rightharpoonup> real)" where
  "fetch_node_elevations fetch node_list =
     fold (\<lambda>k node_elevations. node_elevations ++ fetch (take 200 (drop (200 * k) node_list)))
          [0..<(length node_list + 199) div 200] Map.empty"

text \<open>Lines 356 to 359: \<^verbatim>\<open>node['z'] = node_elevations.get(node_key, 0)\<close>.\<close>

definition set_node_z :: "(real \<times> real \<rightharpoonup> real) \<Rightarrow> raw_point \<Rightarrow> raw_point" where
  "set_node_z node_elevations node =
     node\<lparr> rp_z := Some (dict_get (node_elevations (node_key node)) 0) \<rparr>"

text \<open>
  Lines 418 to 432: the elevation of one pit segment's points, written into the points
  that have a raw point at their index.
\<close>

definition set_pit_z :: "fetcher \<Rightarrow> path \<Rightarrow> path" where
  "set_pit_z fetch seg =
     (let pit_coords = map (\<lambda>rp. (rp_lat rp, rp_lon rp)) (rawPoints seg);
          pit_elevations = fetch pit_coords
      in seg\<lparr> points :=
                map (\<lambda>(pt, rp). pt\<lparr> pt_z := Some (dict_get (pit_elevations (node_key rp)) 0) \<rparr>)
                    (zip (points seg) (rawPoints seg))
                @ drop (length (rawPoints seg)) (points seg) \<rparr>)"

text \<open>Lines 435 to 457: the elevations collected for the minimum, and the shift by it.\<close>

definition z_values_of :: "spline_point list \<Rightarrow> path list \<Rightarrow> real list" where
  "z_values_of spline_points pit_segs =
     map (\<lambda>pt. dict_get (pt_z pt) 0) spline_points
     @ concat (map (\<lambda>seg. List.map_filter pt_z (points seg)) pit_segs)"

definition shift_spline_z :: "real \<Rightarrow> spline_point \<Rightarrow> spline_point" where
  "shift_spline_z min_z pt = pt\<lparr> pt_z := Some (dict_get (pt_z pt) 0 - min_z) \<rparr>"

definition shift_pit_z :: "real \<Rightarrow> path \<Rightarrow> path" where
  "shift_pit_z min_z seg =
     seg\<lparr> points := map (\<lambda>pt. case pt_z pt of None \<Rightarrow> pt
                                | Some z \<Rightarrow> pt\<lparr> pt_z := Some (z - min_z) \<rparr>) (points seg) \<rparr>"

text \<open>Lines 478 to 481: the scaling of one spline point.\<close>

definition scale_point :: "real \<Rightarrow> spline_point \<Rightarrow> spline_point" where
  "scale_point scaling_factor p =
     p\<lparr> pt_x := pt_x p * scaling_factor,
        pt_y := pt_y p * scaling_factor,
        sp_dist := sp_dist p * scaling_factor \<rparr>"

text \<open>Lines 494 to 500: the nearest of the first 2000 spline points.\<close>

definition sf_step ::
  "spline_point list \<Rightarrow> point \<Rightarrow> nat \<Rightarrow> nat \<times> real option \<Rightarrow> nat \<times> real option" where
  "sf_step spline_points scaled_sf i st =
     (let d = get_distance_meters (spline_points ! i) scaled_sf
      in if lt_inf d (snd st) then (i, Some d) else st)"

definition find_sf_index :: "spline_point list \<Rightarrow> point \<Rightarrow> nat" where
  "find_sf_index spline_points scaled_sf =
     fst (fold (sf_step spline_points scaled_sf) [0..<min 2000 (length spline_points)] (0, None))"

text \<open>Lines 508 to 512: cumulative distance recomputed along the rotated sequence.\<close>

fun redistance :: "spline_point \<Rightarrow> real \<Rightarrow> spline_point list \<Rightarrow> spline_point list \<times> real" where
  "redistance prev total_distance [] = ([], total_distance)"
| "redistance prev total_distance (p # ps) =
     (let total = total_distance + get_distance_meters prev p;
          (rest, final) = redistance p total ps
      in (p\<lparr> sp_dist := total \<rparr> # rest, final))"

definition rotate_to_sf :: "nat \<Rightarrow> spline_point list \<Rightarrow> real \<Rightarrow> spline_point list \<times> real" where
  "rotate_to_sf sf_index spline_points total_distance =
     (if sf_index > 0 then
        (case drop sf_index spline_points @ take sf_index spline_points of
           [] \<Rightarrow> ([], 0)
         | p0 # ps \<Rightarrow>
            (let (rest, total) = redistance p0 0 ps
             in (p0\<lparr> sp_dist := 0 \<rparr> # rest, total)))
      else (spline_points, total_distance))"

text \<open>Lines 515 to 528: the first index whose \<^verbatim>\<open>dist\<close> reaches the threshold, else \<^verbatim>\<open>-1\<close>.\<close>

fun first_index_ge :: "real \<Rightarrow> spline_point list \<Rightarrow> nat \<Rightarrow> int" where
  "first_index_ge threshold [] i = - 1"
| "first_index_ge threshold (p # ps) i =
     (if sp_dist p \<ge> threshold then int i else first_index_ge threshold ps (Suc i))"

text \<open>
  Lines 530 to 586, the visual paths. The SVG string \<^verbatim>\<open>d\<close> is formatted from the
  coordinates of a point list; the model keeps that list of coordinates.
\<close>

datatype visual_id = SectorId string | WayId int

record visual_path =
  vp_d :: "(real \<times> real) list"
  vp_color :: string
  vp_width :: real
  vp_id :: visual_id
  vp_points :: "point list option"

definition create_path_d :: "('a point_scheme) list \<Rightarrow> (real \<times> real) list" where
  "create_path_d pts = map (\<lambda>p. (pt_x p, pt_y p)) pts"

definition py_slice :: "int \<Rightarrow> int \<Rightarrow> 'a list \<Rightarrow> 'a list" where
  "py_slice lo hi xs = take (nat hi - nat lo) (drop (nat lo) xs)"

definition sector_paths :: "spline_point list \<Rightarrow> int \<Rightarrow> int \<Rightarrow> visual_path list" where
  "sector_paths spline_points s1_idx s2_idx =
     (if s1_idx > 0 \<and> s2_idx > 0 then
        (let p1 = py_slice 0 (s1_idx + 1) spline_points;
             p2 = py_slice s1_idx (s2_idx + 1) spline_points;
             p3 = drop (nat s2_idx) spline_points
         in (if p1 \<noteq> [] then [\<lparr> vp_d = create_path_d p1, vp_color = ''#3b82f6'',
                                  vp_width = sp_width (hd p1), vp_id = SectorId ''s1'',
                                  vp_points = None \<rparr>] else [])
            @ (if p2 \<noteq> [] then [\<lparr> vp_d = create_path_d p2, vp_color = ''#eab308'',
                                    vp_width = sp_width (hd p2), vp_id = SectorId ''s2'',
                                    vp_points = None \<rparr>] else [])
            @ (if p3 \<noteq> [] then [\<lparr> vp_d = create_path_d p3, vp_color = ''#ef4444'',
                                    vp_width = sp_width (hd p3), vp_id = SectorId ''s3'',
                                    vp_points = None \<rparr>] else []))
      else [\<lparr> vp_d = create_path_d spline_points, vp_color = ''#10b981'', vp_width = 12,
              vp_id = SectorId ''track_full'', vp_points = None \<rparr>])"

definition pit_path :: "real \<Rightarrow> path \<Rightarrow> visual_path" where
  "pit_path scaling_factor seg =
     (let scaled_pit_points =
            map (\<lambda>p. \<lparr> pt_x = pt_x p * scaling_factor, pt_y = pt_y p * scaling_factor,
                       pt_z = Some (dict_get (pt_z p) 0) \<rparr>) (points seg)
      in \<lparr> vp_d = create_path_d scaled_pit_points, vp_color = ''#f97316'',
           vp_width = widthValue seg, vp_id = WayId (path_id seg),
           vp_points = Some scaled_pit_points \<rparr>)"

text \<open>
  \<^verbatim>\<open>finalize_track\<close> writes into dicts of its argument: the raw points of the chained
  track segments get a \<^verbatim>\<open>z\<close> (line 359), and the points of the pit segments get one
  (line 432) and are shifted (line 457). The model therefore returns the track data as
  it is after the call, next to the result. It does so by value: every point dict is
  taken to be referenced from one place of \<^verbatim>\<open>track_data\<close> only.
\<close>

fun update_tracks :: "(path \<Rightarrow> path) \<Rightarrow> nat set \<Rightarrow> nat \<Rightarrow> path list \<Rightarrow> path list" where
  "update_tracks f used k [] = []"
| "update_tracks f used k (p # ps) =
     (if path_type p = Track
      then (if k \<in> used then f p else p) # update_tracks f used (Suc k) ps
      else p # update_tracks f used k ps)"

text \<open>Lines 196 to 202: the start/finish point, defaulting to the first raw point.\<close>

definition start_finish :: "track_data \<Rightarrow> real option \<Rightarrow> real option \<Rightarrow> failure + real \<times> real" where
  "start_finish td sf_lat sf_lon =
     (case (sf_lat, sf_lon) of
        (Some la, Some lo) \<Rightarrow> Inr (la, lo)
      | _ \<Rightarrow>
         (case paths td of
            [] \<Rightarrow> Inl ReturnsNone
          | p0 # _ \<Rightarrow>
             (case rawPoints p0 of
                [] \<Rightarrow> Inl ReturnsNone
              | r0 # _ \<Rightarrow> Inr (rp_lat r0, rp_lon r0))))"

definition order_segments :: "path list \<Rightarrow> point \<Rightarrow> failure + (nat \<times> bool) list" where
  "order_segments track_segs sf_meters =
     (case find_start sf_meters track_segs 0 (None, None, False) of
        Inl e \<Rightarrow> Inl e
      | Inr found \<Rightarrow>
         (case fst found of
            None \<Rightarrow> Inl ReturnsNone
          | Some best_start_idx \<Rightarrow>
              order_loop track_segs (length track_segs) {} best_start_idx (snd (snd found)) []))"

text \<open>
  Lines 405 to 415. \<open>smooth\<close> stands for
  \<^verbatim>\<open>gaussian_filter1d(z_array, sigma=5.0, mode='wrap')\<close>.
\<close>

definition smooth_z :: "(real list \<Rightarrow> real list) \<Rightarrow> spline_point list \<Rightarrow> spline_point list" where
  "smooth_z smooth spline_points =
     (let z_array = map (\<lambda>pt. dict_get (pt_z pt) 0) spline_points;
          smoothed_z = smooth z_array
      in map (\<lambda>i. (spline_points ! i)\<lparr> pt_z := Some (smoothed_z ! i) \<rparr>)
             [0..<length spline_points])"

text \<open>The chain as the list \<^verbatim>\<open>ordered_segments\<close>, lines 247 to 255.\<close>

definition ordered_of :: "track_data \<Rightarrow> (nat \<times> bool) list \<Rightarrow> ordered_segment list" where
  "ordered_of td order = map (make_ordered (filter (\<lambda>p. path_type p = Track) (paths td))) order"

text \<open>
  Lines 189 to 326: the guards, the chain of segments and the first resampling pass,
  which only matters for the exception it may raise. The result is the start/finish
  point and the chain.
\<close>

definition chain_segments ::
  "track_data \<Rightarrow> real option \<Rightarrow> real option \<Rightarrow> failure + (real \<times> real) \<times> (nat \<times> bool) list" where
  "chain_segments td sf_lat sf_lon =
     (if paths td = [] then Inl ReturnsNone
      else case start_finish td sf_lat sf_lon of
        Inl e \<Rightarrow> Inl e
      | Inr sf \<Rightarrow>
         (let sf_meters = project_to_local_meters (fst sf) (snd sf) (center_lat td) (center_lon td);
              track_segs = filter (\<lambda>p. path_type p = Track) (paths td)
          in if track_segs = [] then Inl ReturnsNone
             else case order_segments track_segs sf_meters of
               Inl e \<Rightarrow> Inl e
             | Inr order \<Rightarrow>
                (case resample (ordered_of td order) ([], 0) of
                   Inl e \<Rightarrow> Inl e
                 | Inr _ \<Rightarrow> Inr (sf, order))))"

text \<open>Lines 329 to 359: what the elevation lookup does to a list of raw points.\<close>

definition elevate :: "fetcher option \<Rightarrow> ordered_segment list \<Rightarrow> raw_point list \<Rightarrow> raw_point list" where
  "elevate fetcher ordered_segments raws =
     (case fetcher of
        None \<Rightarrow> raws
      | Some fetch \<Rightarrow>
          map (set_node_z
                 (fetch_node_elevations fetch
                    (unique_nodes (concat (map os_rawPoints ordered_segments)) []))) raws)"

text \<open>Lines 417 to 432: the pit segments after their elevation lookup.\<close>

definition elevate_pits :: "fetcher option \<Rightarrow> path list \<Rightarrow> path list" where
  "elevate_pits fetcher ps =
     (case fetcher of
        None \<Rightarrow> ps
      | Some fetch \<Rightarrow> map (\<lambda>p. if path_type p = Pit then set_pit_z fetch p else p) ps)"

text \<open>Lines 434 to 468: the normalisation of the spline points and of the pit segments.\<close>

definition normalize_elevation ::
  "spline_point list \<Rightarrow> path list \<Rightarrow> spline_point list \<times> path list" where
  "normalize_elevation spline_points ps =
     (if spline_points \<noteq> [] then
        (let z_values = z_values_of spline_points (filter (\<lambda>p. path_type p = Pit) ps);
             min_z = Min (set z_values)
         in (map (shift_spline_z min_z) spline_points,
             map (\<lambda>p. if path_type p = Pit then shift_pit_z min_z p else p) ps))
      else (spline_points, ps))"

text \<open>Lines 472 to 484: the scaling to the requested circuit length.\<close>

definition scale_track ::
  "real option \<Rightarrow> spline_point list \<Rightarrow> real \<Rightarrow> failure + spline_point list \<times> real \<times> real" where
  "scale_track circuit_miles spline_points total_distance =
     (case circuit_miles of
        None \<Rightarrow> Inr (spline_points, total_distance, 1)
      | Some miles \<Rightarrow>
          if miles > 0 then
            (if total_distance = 0 then Inl ZeroDivisionError
             else
               (let target_meters = miles * (160934 / 100);
                    scaling_factor = target_meters / total_distance
                in Inr (map (scale_point scaling_factor) spline_points,
                        total_distance * scaling_factor, scaling_factor)))
          else Inr (spline_points, total_distance, 1))"

record prepared =
  pr_points :: "spline_point list"
  pr_total :: real
  pr_scaling :: real
  pr_pit_segs :: "path list"
  pr_sf_lat :: real
  pr_sf_lon :: real

text \<open>
  The chain once the lookup has written \<^verbatim>\<open>z\<close> into its raw points, and what that write
  does to the paths of \<^verbatim>\<open>track_data\<close>: the raw points of a chained segment are the
  dicts of the path it was taken from.
\<close>

definition with_elevation :: "fetcher option \<Rightarrow> ordered_segment list \<Rightarrow> ordered_segment list" where
  "with_elevation fetcher ordered_segments =
     map (\<lambda>seg. seg\<lparr> os_rawPoints := elevate fetcher ordered_segments (os_rawPoints seg) \<rparr>)
         ordered_segments"

definition mark_tracks :: "fetcher option \<Rightarrow> track_data \<Rightarrow> (nat \<times> bool) list \<Rightarrow> path list" where
  "mark_tracks fetcher td order =
     update_tracks (\<lambda>p. p\<lparr> rawPoints := elevate fetcher (ordered_of td order) (rawPoints p) \<rparr>)
       (fst ` set order) 0 (paths td)"

definition smooth_if_long :: "(real list \<Rightarrow> real list) \<Rightarrow> spline_point list \<Rightarrow> spline_point list" where
  "smooth_if_long smooth spline_points =
     (if length spline_points > 10 then smooth_z smooth spline_points else spline_points)"

text \<open>Lines 189 to 484: everything up to and including the scaling.\<close>

definition prepare_spline ::
  "(real list \<Rightarrow> real list) \<Rightarrow> track_data \<Rightarrow> real option \<Rightarrow> real option \<Rightarrow> real option
     \<Rightarrow> fetcher option \<Rightarrow> track_data \<times> (failure + prepared)" where
  "prepare_spline smooth td sf_lat sf_lon circuit_miles fetcher =
     (case chain_segments td sf_lat sf_lon of
        Inl e \<Rightarrow> (td, Inl e)
      | Inr (sf, order) \<Rightarrow>
         (let paths1 = mark_tracks fetcher td order
          in case resample (with_elevation fetcher (ordered_of td order)) ([], 0) of
               Inl e \<Rightarrow> (td\<lparr> paths := paths1 \<rparr>, Inl e)
             | Inr (spline0, total_distance) \<Rightarrow>
                (let spline1 = smooth_if_long smooth spline0;
                     paths2 = elevate_pits fetcher paths1;
                     (spline2, paths3) = normalize_elevation spline1 paths2;
                     td3 = td\<lparr> paths := paths3 \<rparr>
                 in case scale_track circuit_miles spline2 total_distance of
                      Inl e \<Rightarrow> (td3, Inl e)
                    | Inr (spline3, scaled_total, scaling_factor) \<Rightarrow>
                       (td3, Inr \<lparr> pr_points = spline3,
                                   pr_total = scaled_total,
                                   pr_scaling = scaling_factor,
                                   pr_pit_segs = filter (\<lambda>p. path_type p = Pit) paths3,
                                   pr_sf_lat = fst sf,
                                   pr_sf_lon = snd sf \<rparr>))))"

text \<open>
  The result dict. The formatted strings \<^verbatim>\<open>totalLen\<close>, \<^verbatim>\<open>totalLengthMeters\<close> and
  \<^verbatim>\<open>scalingFactorApplied\<close> are kept as the numbers they print; the echo of the
  arguments (\<^verbatim>\<open>inputs\<close>) and the nine sample points (\<^verbatim>\<open>nodeSample\<close>) are left out.
\<close>

record finalized =
  visualPaths :: "visual_path list"
  sfMarker :: "spline_point option"
  totalLen :: real
  sectors :: bool
  splinePoints :: "spline_point list"
  scalingFactorApplied :: real
  nodesCount :: nat
  sfIndex :: int
  s1EndIndex :: int
  s1LengthMeters :: real
  s2EndIndex :: int
  s2LengthMeters :: real
  s3EndIndex :: int
  fin_center_lat :: real
  fin_center_lon :: real

text \<open>Lines 486 to 632: sectors, rotation, visual paths and the result.\<close>

definition start_finish_index :: "track_data \<Rightarrow> prepared \<Rightarrow> nat" where
  "start_finish_index td pre =
     (let unscaled_sf = project_to_local_meters (pr_sf_lat pre) (pr_sf_lon pre)
                          (center_lat td) (center_lon td);
          scaled_sf = \<lparr> pt_x = pt_x unscaled_sf * pr_scaling pre,
                        pt_y = pt_y unscaled_sf * pr_scaling pre, pt_z = None \<rparr>
      in find_sf_index (pr_points pre) scaled_sf)"

definition assemble :: "track_data \<Rightarrow> prepared \<Rightarrow> real option \<Rightarrow> real option \<Rightarrow> finalized" where
  "assemble td pre sector1_inches sector2_inches =
     (let s1m = dict_get sector1_inches 0 * (254 / 10000);
          s2m = dict_get sector2_inches 0 * (254 / 10000);
          sf_index = start_finish_index td pre;
          (spline_points, total_distance) = rotate_to_sf sf_index (pr_points pre) (pr_total pre);
          s1_idx = (if s1m > 0 then first_index_ge s1m spline_points 0 else - 1);
          s2_idx = (if s2m > 0 then first_index_ge (s1m + s2m) spline_points 0 else - 1);
          visual_paths = sector_paths spline_points s1_idx s2_idx
                         @ map (pit_path (pr_scaling pre)) (pr_pit_segs pre)
      in \<lparr> visualPaths = visual_paths,
           sfMarker = (case spline_points of [] \<Rightarrow> None | p0 # _ \<Rightarrow> Some p0),
           totalLen = total_distance,
           sectors = (s1_idx > 0),
           splinePoints = spline_points,
           scalingFactorApplied = pr_scaling pre,
           nodesCount = length spline_points,
           sfIndex = 0,
           s1EndIndex = s1_idx,
           s1LengthMeters = s1m,
           s2EndIndex = s2_idx,
           s2LengthMeters = s2m,
           s3EndIndex = (if spline_points \<noteq> [] then int (length spline_points) - 1 else - 1),
           fin_center_lat = center_lat td,
           fin_center_lon = center_lon td \<rparr>)"

text \<open>
  \<^verbatim>\<open>finalize_track\<close>, lines 183 to 632: the track data after the call, and the result.
  \<^verbatim>\<open>sector3_inches\<close> is only echoed by the code and is no argument here.
\<close>

definition finalize_track ::
  "(real list \<Rightarrow> real list) \<Rightarrow> track_data \<Rightarrow> real option \<Rightarrow> real option \<Rightarrow> real option
     \<Rightarrow> real option \<Rightarrow> real option \<Rightarrow> fetcher option \<Rightarrow> track_data \<times> (failure + finalized)" where
  "finalize_track smooth td sf_lat sf_lon sector1_inches sector2_inches circuit_miles fetcher =
     (case prepare_spline smooth td sf_lat sf_lon circuit_miles fetcher of
        (td', Inl e) \<Rightarrow> (td', Inl e)
      | (td', Inr pre) \<Rightarrow> (td', Inr (assemble td pre sector1_inches sector2_inches)))"

section \<open>Notions used in the statements\<close>

text \<open>
  A way is kept by the loop of \<^verbatim>\<open>process_osm_data\<close> when it has at least two node ids,
  at least two of them resolve, and no filter applies.
\<close>

definition way_kept :: "(int \<rightharpoonup> raw_point) \<Rightarrow> int option \<Rightarrow> way \<Rightarrow> bool" where
  "way_kept nodes pit_lane_id w =
     (case way_nodes w of
        None \<Rightarrow> False
      | Some ids \<Rightarrow> 2 \<le> length ids \<and> 2 \<le> length (resolve_nodes nodes ids)
                     \<and> \<not> way_filtered pit_lane_id w)"

text \<open>The ids and kinds of the paths of a result.\<close>

definition path_kinds :: "failure + track_data \<Rightarrow> failure + (int \<times> path_type) list" where
  "path_kinds res = map_sum id (\<lambda>td. map (\<lambda>p. (path_id p, path_type p)) (paths td)) res"

text \<open>\<open>k\<close> is the first index of the list whose cumulative distance reaches the threshold.\<close>

definition is_first_index_ge :: "real \<Rightarrow> spline_point list \<Rightarrow> int \<Rightarrow> bool" where
  "is_first_index_ge threshold spline_points k \<longleftrightarrow>
     0 \<le> k \<and> nat k < length spline_points
     \<and> threshold \<le> sp_dist (spline_points ! nat k)
     \<and> (\<forall>j < nat k. sp_dist (spline_points ! j) < threshold)"

text \<open>
  The invariant of the resampling loop: the distances written so far never decrease, none
  exceeds the running total, and the total is not negative.
\<close>

definition dist_inv :: "spline_point list \<times> real \<Rightarrow> bool" where
  "dist_inv st \<longleftrightarrow> sorted (map sp_dist (fst st)) \<and> (\<forall>p \<in> set (fst st). sp_dist p \<le> snd st)
                 \<and> 0 \<le> snd st"

text \<open>
  The elevations a result shows: that of every spline point, and that of every point of a
  pit-lane path (\<^verbatim>\<open>p.get('z', 0)\<close>, line 579).
\<close>

definition elevations :: "finalized \<Rightarrow> real list" where
  "elevations out =
     map (\<lambda>p. dict_get (pt_z p) 0) (splinePoints out)
     @ concat (map (\<lambda>vp. case vp_points vp of
                            None \<Rightarrow> []
                          | Some pts \<Rightarrow> map (\<lambda>p. dict_get (pt_z p) 0) pts) (visualPaths out))"


text \<open>The sector lengths, the total length, the two sector end indices and the point count.\<close>

definition sector_summary :: "finalized \<Rightarrow> real \<times> real \<times> real \<times> int \<times> int \<times> nat" where
  "sector_summary out =
     (s1LengthMeters out, s2LengthMeters out, totalLen out, s1EndIndex out, s2EndIndex out,
      nodesCount out)"



section \<open>Concrete inputs\<close>

text \<open>
  Small inputs on which the theorems below are instantiated: a stand-in for SciPy that
  always fits, one whose fits always fail, and centerlines along the x axis.
\<close>

definition lib0 :: "unit scipy" where
  "lib0 = \<lparr> splprep = (\<lambda>xs ys s. Inr ()),
            splev = (\<lambda>u tck der. (u, map (\<lambda>t. 0) u)),
            gaussian_filter1d = (\<lambda>a sigma. a) \<rparr>"

definition lib_fail :: "unit scipy" where
  "lib_fail = \<lparr> splprep = (\<lambda>xs ys s. if s = 0 then Inl (SciPyError 1) else Inl (SciPyError 2)),
                splev = (\<lambda>u tck der. (u, map (\<lambda>t. 0) u)),
                gaussian_filter1d = (\<lambda>a sigma. a) \<rparr>"

definition row :: "real \<Rightarrow> real \<Rightarrow> real \<Rightarrow> cl_row" where
  "row a b d = \<lparr> cl_x = a, cl_y = b, cl_distance = d \<rparr>"

definition gen_of :: "cl_row list \<Rightarrow> generator" where
  "gen_of rows = projr (init_generator rows 10 None None)"

definition line4 :: "cl_row list" where
  "line4 = [row 0 0 0, row 1 0 1, row 2 0 2, row 3 0 3]"

definition line3 :: "cl_row list" where
  "line3 = [row 0 0 0, row 1 0 1, row (21 / 20) 0 (21 / 20), row 2 0 2]"


text \<open>Two nodes and a service road; and two service roads, one at the pit anchor.\<close>

definition way7 :: way where
  "way7 = \<lparr> way_id = 7, way_nodes = Some [1, 2], way_tags = [''highway'' \<mapsto> ''service''] \<rparr>"

definition way8 :: way where
  "way8 = \<lparr> way_id = 8, way_nodes = Some [3, 4], way_tags = [''highway'' \<mapsto> ''service''] \<rparr>"

definition service_only :: "element list" where
  "service_only = [NodeEl 1 0 0, NodeEl 2 0 (1 / 1000), WayEl way7]"

definition two_service :: "element list" where
  "two_service =
     [NodeEl 1 1 0, NodeEl 2 1 (1 / 1000), NodeEl 3 0 0, NodeEl 4 0 (1 / 1000),
      WayEl way7, WayEl way8]"

definition td_service_only :: track_data where
  "td_service_only = projr (process_osm_data (\<lambda>s. None) (Some service_only) ''Scanned Track'' None)"

definition td_two_service :: track_data where
  "td_two_service =
     projr (process_osm_data (\<lambda>s. None) (Some two_service) ''Scanned Track'' (Some (0, 0)))"

text \<open>
  A track of one straight segment of 4 m along the x axis, from \<open>x0\<close> to \<open>x0 + 4\<close>, its
  resampled spline scaled by \<open>k\<close>, a circuit length of 8 m in miles, and an elevation
  service that answers 5 m everywhere.
\<close>

definition straight_path :: "real \<Rightarrow> path" where
  "straight_path x0 =
     \<lparr> path_id = 1,
       points = [\<lparr> pt_x = x0, pt_y = 0, pt_z = None \<rparr>, \<lparr> pt_x = x0 + 4, pt_y = 0, pt_z = None \<rparr>],
       rawPoints = [\<lparr> rp_lat = 0, rp_lon = - (1 / 50000), rp_z = None \<rparr>,
                    \<lparr> rp_lat = 0, rp_lon = 1 / 50000, rp_z = None \<rparr>],
       path_type = Track,
       widthValue = 12 \<rparr>"

definition straight :: "real \<Rightarrow> track_data" where
  "straight x0 =
     \<lparr> td_name = ''straight'', paths = [straight_path x0], center_lat = 0, center_lon = 0,
       boundsMeters = \<lparr> minX = Some x0, maxX = Some (x0 + 4), minY = Some 0, maxY = Some 0 \<rparr> \<rparr>"

definition on_axis :: "real \<Rightarrow> real \<Rightarrow> real \<Rightarrow> real \<Rightarrow> spline_point" where
  "on_axis x z lo d =
     \<lparr> pt_x = x, pt_y = 0, pt_z = Some z, sp_lat = 0, sp_lon = lo, sp_dist = d, sp_width = 12 \<rparr>"

definition straight_spline :: "real \<Rightarrow> real \<Rightarrow> spline_point list" where
  "straight_spline x0 k =
     [on_axis (x0 * k) 0 (- (1 / 50000)) 0, on_axis ((x0 + 1) * k) 0 (- (1 / 100000)) k,
      on_axis ((x0 + 2) * k) 0 0 (2 * k), on_axis ((x0 + 3) * k) 0 (1 / 100000) (3 * k),
      on_axis ((x0 + 4) * k) 0 (1 / 50000) (4 * k), on_axis ((x0 + 4) * k) 0 (1 / 50000) (4 * k)]"

definition straight_prepared :: "real \<Rightarrow> real \<Rightarrow> prepared" where
  "straight_prepared x0 k =
     \<lparr> pr_points = straight_spline x0 k, pr_total = 4 * k, pr_scaling = k,
       pr_pit_segs = [], pr_sf_lat = 0, pr_sf_lon = 0 \<rparr>"

definition straight_rotated :: "real \<Rightarrow> spline_point list" where
  "straight_rotated k =
     [on_axis 0 0 0 0, on_axis k 0 (1 / 100000) k, on_axis (2 * k) 0 (1 / 50000) (2 * k),
      on_axis (2 * k) 0 (1 / 50000) (2 * k), on_axis (- 2 * k) 0 (- (1 / 50000)) (6 * k),
      on_axis (- k) 0 (- (1 / 100000)) (7 * k)]"

definition eight_meters :: real where
  "eight_meters = 400 / 80467"




section \<open>Properties of the grip model\<close>

lemma calculate_tire_grip_spec:
  "calculate_tire_grip vehicle weather = spec_effective_grip vehicle weather"
  unfolding calculate_tire_grip_def spec_effective_grip_def spec_selected_friction_def
    spec_temp_factor_def clamp_def Let_def
  by (simp add: max_def min_def)

lemma scenario_wet:
  "rainfall weather = Some 15 \<Longrightarrow> tire_friction_dry vehicle = 140 / 100 \<Longrightarrow>
   tire_friction_wet vehicle = Some (70 / 100) \<Longrightarrow>
   track_temp weather = dict_get (optimal_tire_temp vehicle) 85 \<Longrightarrow>
   calculate_tire_grip vehicle weather = 70 / 100"
  by (simp add: calculate_tire_grip_def dict_get_def Let_def)

text \<open>
  Claim C3. The grip that \<^verbatim>\<open>_calculate_tire_grip\<close> returns is the selected friction
  times the clamped temperature factor, as the specification words it, for every vehicle
  and weather configuration; and with 15 mm/hr of rain, dry friction 1.40, wet friction
  0.70 and the track at the optimal temperature it is 0.70.
\<close>

theorem grip_model:
  "calculate_tire_grip vehicle weather = spec_effective_grip vehicle weather
   \<and> (rainfall weather = Some 15 \<and> tire_friction_dry vehicle = 140 / 100
        \<and> tire_friction_wet vehicle = Some (70 / 100)
        \<and> track_temp weather = dict_get (optimal_tire_temp vehicle) 85
       \<longrightarrow> calculate_tire_grip vehicle weather = 70 / 100)"
  using calculate_tire_grip_spec scenario_wet by blast

theorem grip_model_witness:
  "rainfall \<lparr>track_temp = 85, rainfall = Some 15\<rparr> = Some 15
   \<and> tire_friction_dry get_default_vehicle_config = 140 / 100
   \<and> tire_friction_wet get_default_vehicle_config = Some (70 / 100)
   \<and> track_temp \<lparr>track_temp = 85, rainfall = Some 15\<rparr>
       = dict_get (optimal_tire_temp get_default_vehicle_config) 85
   \<and> calculate_tire_grip get_default_vehicle_config \<lparr>track_temp = 85, rainfall = Some 15\<rparr>
       = 70 / 100"
  using grip_model [of get_default_vehicle_config "\<lparr>track_temp = 85, rainfall = Some 15\<rparr>"]
  by (simp add: get_default_vehicle_config_def dict_get_def)

lemma temp_factor_pos: "0 < max (4 / 10) (min 1 (t::real))"
  by (simp add: max_def)

lemma default_grip_eq:
  "calculate_tire_grip get_default_vehicle_config \<lparr>track_temp = temp, rainfall = rain\<rparr> =
     (if dict_get rain 0 > 10 then 70 / 100
      else if dict_get rain 0 > 2 then 1
      else if dict_get rain 0 > 1 / 10 then 119 / 100
      else 140 / 100)
     * max (4 / 10) (min 1 (1 - \<bar>temp - 85\<bar> / 100 * (3 / 10)))"
  by (simp add: calculate_tire_grip_def get_default_vehicle_config_def dict_get_def Let_def)

lemma default_grip_bands:
  assumes "0 \<le> r1" "r1 \<le> 1 / 10" "1 / 10 < r2" "r2 \<le> 2" "2 < r3" "r3 \<le> 10" "10 < r4" "r4 \<le> 15"
  shows "calculate_tire_grip get_default_vehicle_config \<lparr>track_temp = temp, rainfall = Some r2\<rparr>
           < calculate_tire_grip get_default_vehicle_config \<lparr>track_temp = temp, rainfall = Some r1\<rparr>
       \<and> calculate_tire_grip get_default_vehicle_config \<lparr>track_temp = temp, rainfall = Some r3\<rparr>
           < calculate_tire_grip get_default_vehicle_config \<lparr>track_temp = temp, rainfall = Some r2\<rparr>
       \<and> calculate_tire_grip get_default_vehicle_config \<lparr>track_temp = temp, rainfall = Some r4\<rparr>
           < calculate_tire_grip get_default_vehicle_config \<lparr>track_temp = temp, rainfall = Some r3\<rparr>"
  using assms temp_factor_pos [of "1 - \<bar>temp - 85\<bar> / 100 * (3 / 10)"]
  by (simp add: default_grip_eq dict_get_def)

lemma default_grip_rain_mono:
  assumes "r \<le> r'"
  shows "calculate_tire_grip get_default_vehicle_config \<lparr>track_temp = temp, rainfall = Some r'\<rparr>
           \<le> calculate_tire_grip get_default_vehicle_config \<lparr>track_temp = temp, rainfall = Some r\<rparr>"
  using assms temp_factor_pos [of "1 - \<bar>temp - 85\<bar> / 100 * (3 / 10)"]
  by (simp add: default_grip_eq dict_get_def)

lemma default_grip_temp:
  assumes "\<bar>t1 - 85\<bar> \<le> \<bar>t2 - 85\<bar>"
  shows "calculate_tire_grip get_default_vehicle_config \<lparr>track_temp = t2, rainfall = rain\<rparr>
           \<le> calculate_tire_grip get_default_vehicle_config \<lparr>track_temp = t1, rainfall = rain\<rparr>"
proof -
  have "max (4 / 10) (min 1 (1 - \<bar>t2 - 85\<bar> / 100 * (3 / 10)))
          \<le> max (4 / 10) (min 1 (1 - \<bar>t1 - 85\<bar> / 100 * (3 / 10)))"
    using assms by (intro max.mono min.mono order_refl) simp
  then show ?thesis
    by (simp add: default_grip_eq mult_left_mono)
qed

text \<open>
  Claim C4. For the default vehicle at any fixed track temperature, the grip falls
  strictly from one rainfall band to the next (dry, damp, intermediate, wet) as the
  rainfall rises from 0 to 15 mm/hr, and never rises with the rainfall; and at any fixed
  rainfall (given or absent), a track temperature farther from the optimal 85 degrees, on
  either side, never gives more grip.
\<close>

theorem grip_monotone:
  "(0 \<le> r1 \<and> r1 \<le> 1 / 10 \<and> 1 / 10 < r2 \<and> r2 \<le> 2 \<and> 2 < r3 \<and> r3 \<le> 10 \<and> 10 < r4 \<and> r4 \<le> 15 \<longrightarrow>
        calculate_tire_grip get_default_vehicle_config \<lparr>track_temp = temp, rainfall = Some r2\<rparr>
           < calculate_tire_grip get_default_vehicle_config \<lparr>track_temp = temp, rainfall = Some r1\<rparr>
       \<and> calculate_tire_grip get_default_vehicle_config \<lparr>track_temp = temp, rainfall = Some r3\<rparr>
           < calculate_tire_grip get_default_vehicle_config \<lparr>track_temp = temp, rainfall = Some r2\<rparr>
       \<and> calculate_tire_grip get_default_vehicle_config \<lparr>track_temp = temp, rainfall = Some r4\<rparr>
           < calculate_tire_grip get_default_vehicle_config \<lparr>track_temp = temp, rainfall = Some r3\<rparr>)
   \<and> (r \<le> r' \<longrightarrow>
        calculate_tire_grip get_default_vehicle_config \<lparr>track_temp = temp, rainfall = Some r'\<rparr>
           \<le> calculate_tire_grip get_default_vehicle_config \<lparr>track_temp = temp, rainfall = Some r\<rparr>)
   \<and> (\<bar>t1 - dict_get (optimal_tire_temp get_default_vehicle_config) 85\<bar>
          \<le> \<bar>t2 - dict_get (optimal_tire_temp get_default_vehicle_config) 85\<bar> \<longrightarrow>
        calculate_tire_grip get_default_vehicle_config \<lparr>track_temp = t2, rainfall = rain\<rparr>
           \<le> calculate_tire_grip get_default_vehicle_config \<lparr>track_temp = t1, rainfall = rain\<rparr>)"
proof -
  have opt: "dict_get (optimal_tire_temp get_default_vehicle_config) 85 = (85::real)"
    by (simp add: get_default_vehicle_config_def dict_get_def)
  show ?thesis
    unfolding opt
    using default_grip_bands [of r1 r2 r3 r4 temp] default_grip_rain_mono [of r r' temp]
      default_grip_temp [of t1 t2 rain]
    by blast
qed

theorem grip_monotone_witness:
  "(0::real) \<le> 0 \<and> (0::real) \<le> 1 / 10 \<and> (1::real) / 10 < 1 \<and> (1::real) \<le> 2 \<and> (2::real) < 5
   \<and> (5::real) \<le> 10 \<and> (10::real) < 15 \<and> (15::real) \<le> 15
   \<and> calculate_tire_grip get_default_vehicle_config \<lparr>track_temp = 60, rainfall = Some 1\<rparr>
        < calculate_tire_grip get_default_vehicle_config \<lparr>track_temp = 60, rainfall = Some 0\<rparr>
   \<and> calculate_tire_grip get_default_vehicle_config \<lparr>track_temp = 60, rainfall = Some 5\<rparr>
        < calculate_tire_grip get_default_vehicle_config \<lparr>track_temp = 60, rainfall = Some 1\<rparr>
   \<and> calculate_tire_grip get_default_vehicle_config \<lparr>track_temp = 60, rainfall = Some 15\<rparr>
        < calculate_tire_grip get_default_vehicle_config \<lparr>track_temp = 60, rainfall = Some 5\<rparr>
   \<and> (3::real) \<le> 4
   \<and> calculate_tire_grip get_default_vehicle_config \<lparr>track_temp = 60, rainfall = Some 4\<rparr>
        \<le> calculate_tire_grip get_default_vehicle_config \<lparr>track_temp = 60, rainfall = Some 3\<rparr>
   \<and> \<bar>(90::real) - dict_get (optimal_tire_temp get_default_vehicle_config) 85\<bar>
        \<le> \<bar>60 - dict_get (optimal_tire_temp get_default_vehicle_config) 85\<bar>
   \<and> calculate_tire_grip get_default_vehicle_config \<lparr>track_temp = 60, rainfall = None\<rparr>
        \<le> calculate_tire_grip get_default_vehicle_config \<lparr>track_temp = 90, rainfall = None\<rparr>"
proof -
  have opt: "dict_get (optimal_tire_temp get_default_vehicle_config) 85 = (85::real)"
    by (simp add: get_default_vehicle_config_def dict_get_def)
  show ?thesis
    using grip_monotone [of 0 1 5 15 60 3 4 90 60 None]
    by (simp add: opt)
qed

section \<open>The two-pass speed solve\<close>

lemma length_forward_step [simp]:
  "length (forward_step vehicle msl distance i speeds) = length speeds"
  by (simp add: forward_step_def Let_def)

lemma length_backward_step [simp]:
  "length (backward_step vehicle distance i speeds) = length speeds"
  by (simp add: backward_step_def Let_def)

lemma length_distance_step [simp]:
  "length (distance_step cx cy i distance) = length distance"
  by (simp add: distance_step_def Let_def)

lemma length_fold_forward [simp]:
  "length (fold (forward_step vehicle msl distance) is speeds) = length speeds"
  by (induction "is" arbitrary: speeds) simp_all

lemma length_fold_backward [simp]:
  "length (fold (backward_step vehicle distance) is speeds) = length speeds"
  by (induction "is" arbitrary: speeds) simp_all

lemma length_fold_distance [simp]:
  "length (fold (distance_step cx cy) is distance) = length distance"
  by (induction "is" arbitrary: distance) simp_all

lemma length_distance_array [simp]: "length (distance_array n cx cy) = n"
  by (simp add: distance_array_def)

lemma length_forward_pass [simp]: "length (forward_pass vehicle n msl distance) = n"
  by (simp add: forward_pass_def)


lemma nth_distance_step:
  "distance_step cx cy i d ! j =
     (if j = i \<and> i < length d
      then d ! (i - 1) + sqrt ((cx ! i - cx ! (i - 1))\<^sup>2 + (cy ! i - cy ! (i - 1))\<^sup>2)
      else d ! j)"
  by (cases "i < length d") (simp_all add: distance_step_def Let_def nth_list_update list_update_beyond not_less)


lemma nth_backward_step:
  "backward_step vehicle distance i s ! j =
     (if j = i \<and> i < length s
      then min (s ! i) (sqrt ((s ! (i + 1))\<^sup>2
             + 2 * max_brake_g vehicle * gravity * (distance ! (i + 1) - distance ! i)))
      else s ! j)"
  by (cases "i < length s") (simp_all add: backward_step_def Let_def nth_list_update list_update_beyond not_less)

text \<open>An index that a run of steps does not visit keeps its value.\<close>

lemma fold_distance_untouched:
  "j \<notin> set is \<Longrightarrow> fold (distance_step cx cy) is d ! j = d ! j"
  by (induction "is" arbitrary: d) (auto simp: nth_distance_step)


lemma fold_backward_untouched:
  "j \<notin> set is \<Longrightarrow> fold (backward_step vehicle distance) is s ! j = s ! j"
  by (induction "is" arbitrary: s) (auto simp: nth_backward_step)



















lemma clean4: "clean_points (gen_of line4) = ([0, 1, 2, 3], [0, 0, 0, 0])"
  by (simp add: clean_points_def gen_of_def init_generator_def line4_def row_def Let_def)


lemma gen_line4: "init_generator line4 10 None None = Inr (gen_of line4)"
  by (simp add: gen_of_def init_generator_def line4_def Let_def)





lemma fst_line_from_fit: "fst (line_from_fit lib self n tck) = [10]"
  unfolding line_from_fit_def Let_def
  by (auto split: prod.splits sum.splits)

lemma init_nonempty:
  "init_generator rows w v wc = Inr self \<Longrightarrow> self_center_x self \<noteq> [] \<and> self_center_y self \<noteq> []"
  by (auto simp: init_generator_def Let_def split: if_splits)

text \<open>
  Claim C8. For a generator built by \<^verbatim>\<open>__init__\<close>: when fewer than four points are left
  after the 0.1 m deduplication, \<^verbatim>\<open>generate_optimal_line\<close> raises ValueError, with no
  fit attempted and no line returned. Otherwise the centerline is fitted with \<open>s = 0\<close>; if
  that fit raises, it is fitted once more with \<open>s = 10\<close>, and an exception of this second
  fit is the outcome of the call. The first component lists the \<open>s\<close> of every fit: after a
  first fit that succeeds, the \<open>10\<close> is the fit of the racing line; after one that fails,
  the second entry is the retry and a third is the fit of the racing line.
\<close>

theorem insufficient_points_and_retry:
  assumes "init_generator rows width vcfg wcfg = Inr self"
    and "clean_points self = (cleaned_x, cleaned_y)"
  shows "(length cleaned_x < 4 \<longrightarrow> generate_optimal_line lib self n = ([], Inl ValueError))
     \<and> (4 \<le> length cleaned_x \<longrightarrow>
          (case splprep lib cleaned_x cleaned_y 0 of
             Inr tck \<Rightarrow> generate_optimal_line lib self n = ([0, 10], snd (line_from_fit lib self n tck))
           | Inl e \<Rightarrow>
              (case splprep lib cleaned_x cleaned_y 10 of
                 Inl e' \<Rightarrow> generate_optimal_line lib self n = ([0, 10], Inl e')
               | Inr tck \<Rightarrow> generate_optimal_line lib self n
                              = ([0, 10, 10], snd (line_from_fit lib self n tck)))))"
proof -
  have ne: "self_center_x self \<noteq> []" "self_center_y self \<noteq> []"
    using init_nonempty [OF assms(1)] by simp_all
  have few: "length cleaned_x < 4 \<Longrightarrow> generate_optimal_line lib self n = ([], Inl ValueError)"
    by (simp add: generate_optimal_line_def assms(2) ne)
  have many: "4 \<le> length cleaned_x \<Longrightarrow> generate_optimal_line lib self n =
      (case fit_centerline lib cleaned_x cleaned_y of
              (calls, Inl e) \<Rightarrow> (calls, Inl e)
            | (calls, Inr tck) \<Rightarrow> (calls @ [10], snd (line_from_fit lib self n tck)))"
    by (simp add: generate_optimal_line_def assms(2) ne Let_def case_prod_beta fst_line_from_fit
          split: sum.splits)
  show ?thesis
    using few many
    by (auto simp: fit_centerline_def split: sum.splits)
qed

lemma gen_line3: "init_generator line3 10 None None = Inr (gen_of line3)"
  by (simp add: gen_of_def init_generator_def line3_def Let_def)

lemma clean3: "clean_points (gen_of line3) = ([0,1,2],[0,0,0])"
  by (simp add: clean_points_def gen_of_def init_generator_def line3_def row_def Let_def)

theorem insufficient_points_and_retry_witness:
  "init_generator line3 10 None None = Inr (gen_of line3)
   \<and> clean_points (gen_of line3) = ([0, 1, 2], [0, 0, 0])
   \<and> generate_optimal_line lib0 (gen_of line3) 2000 = ([], Inl ValueError)
   \<and> init_generator line4 10 None None = Inr (gen_of line4)
   \<and> clean_points (gen_of line4) = ([0, 1, 2, 3], [0, 0, 0, 0])
   \<and> splprep lib_fail [0, 1, 2, 3] [0, 0, 0, 0] 0 = Inl (SciPyError 1)
   \<and> splprep lib_fail [0, 1, 2, 3] [0, 0, 0, 0] 10 = Inl (SciPyError 2)
   \<and> generate_optimal_line lib_fail (gen_of line4) 2000 = ([0, 10], Inl (SciPyError 2))"
  using insufficient_points_and_retry [OF gen_line3 clean3, of lib0 2000]
    insufficient_points_and_retry [OF gen_line4 clean4, of lib_fail 2000]
    gen_line3 clean3 gen_line4 clean4
  by (simp add: lib_fail_def)


section \<open>Which ways \<^verbatim>\<open>process_osm_data\<close> keeps\<close>

lemma process_way_ids:
  "map path_id (fs_all_paths (process_way pw nodes c_lat c_lon pid w st))
     = map path_id (fs_all_paths st) @ (if way_kept nodes pid w then [way_id w] else [])"
  by (simp add: process_way_def way_kept_def Let_def split: option.splits)

lemma fold_process_way_ids:
  "map path_id (fs_all_paths (fold (process_way pw nodes c_lat c_lon pid) ws st))
     = map path_id (fs_all_paths st) @ map way_id (filter (way_kept nodes pid) ws)"
  by (induction ws arbitrary: st) (simp_all add: process_way_ids)

lemma process_way_kinds:
  "map (\<lambda>p. (path_id p, path_type p)) (fs_all_paths (process_way pw nodes c_lat c_lon pid w st))
     = map (\<lambda>p. (path_id p, path_type p)) (fs_all_paths st)
       @ (if way_kept nodes pid w then [(way_id w, if way_is_pit pid w then Pit else Track)] else [])"
  by (simp add: process_way_def way_kept_def Let_def split: option.splits)

lemma fold_process_way_kinds:
  "map (\<lambda>p. (path_id p, path_type p)) (fs_all_paths (fold (process_way pw nodes c_lat c_lon pid) ws st))
     = map (\<lambda>p. (path_id p, path_type p)) (fs_all_paths st)
       @ map (\<lambda>w. (way_id w, if way_is_pit pid w then Pit else Track)) (filter (way_kept nodes pid) ws)"
  by (induction ws arbitrary: st) (simp_all add: process_way_kinds)

lemma process_osm_data_kinds:
  assumes "process_osm_data pw (Some elements) name pit_anchor = Inr td"
  shows "\<exists>pid. (case pit_anchor of None \<Rightarrow> Inr None
                | Some anchor \<Rightarrow> find_pit_lane (ps_nodes (parse_elements elements)) anchor
                                   (ps_ways (parse_elements elements)) None None) = Inr pid
          \<and> map (\<lambda>p. (path_id p, path_type p)) (paths td)
             = map (\<lambda>w. (way_id w, if way_is_pit pid w then Pit else Track))
                 (filter (way_kept (ps_nodes (parse_elements elements)) pid)
                         (ps_ways (parse_elements elements)))"
  using assms
  by (auto simp: process_osm_data_def Let_def fold_process_way_kinds split: if_splits sum.splits)

text \<open>
  Claim C2 as stated fails: with no pit anchor, a way tagged \<^verbatim>\<open>highway=service\<close> comes out
  as a track path.
\<close>

theorem service_kept_counterexample:
  "path_kinds (process_osm_data (\<lambda>s. None) (Some service_only) ''Scanned Track'' None)
     = Inr [(7, Track)]"
  by (simp add: path_kinds_def process_osm_data_def service_only_def way7_def parse_elements_def
      Let_def process_way_def resolve_nodes_def List.map_filter_def way_filtered_def tag_truthy_def
      way_is_pit_def dict_get_def mid_point_def lt_inf_def gt_neg_inf_def)

lemma parse_element_inv:
  assumes "ps_seen_ways st = set (map way_id (ps_ways st))" "distinct (map way_id (ps_ways st))"
  shows "ps_seen_ways (parse_element el st) = set (map way_id (ps_ways (parse_element el st)))
         \<and> distinct (map way_id (ps_ways (parse_element el st)))"
  using assms by (cases el) auto

lemma fold_parse_element_inv:
  assumes "ps_seen_ways st = set (map way_id (ps_ways st))" "distinct (map way_id (ps_ways st))"
  shows "distinct (map way_id (ps_ways (fold parse_element els st)))"
  using assms
proof (induction els arbitrary: st)
  case Nil
  then show ?case by simp
next
  case (Cons el els)
  then show ?case using parse_element_inv [of st el] by simp
qed

lemma distinct_way_ids: "distinct (map way_id (ps_ways (parse_elements els)))"
  unfolding parse_elements_def by (rule fold_parse_element_inv) simp_all

text \<open>
  Claim C2, amended. Let \<open>w\<close> be a way tagged \<^verbatim>\<open>highway=service\<close>. With no pit anchor,
  \<open>w\<close> is not discarded for that tag: if it has at least two node ids, at least two of
  them resolve, and it has no barrier, wall or building tag, it is among the output
  paths, as pit when its tags mark it as a pit lane and as track otherwise. With a pit
  anchor that selects a pit lane with a non-zero id other than \<open>w\<close>'s, no output path
  has \<open>w\<close>'s id.
\<close>

theorem service_filter:
  assumes res: "process_osm_data pw (Some elements) name pit_anchor = Inr td"
    and w: "w \<in> set (ps_ways (parse_elements elements))"
    and svc: "way_tags w ''highway'' = Some ''service''"
  shows "(pit_anchor = None \<and> way_nodes w = Some ids \<and> 2 \<le> length ids
            \<and> 2 \<le> length (resolve_nodes (ps_nodes (parse_elements elements)) ids)
            \<and> \<not> tag_truthy (way_tags w) ''barrier'' \<and> \<not> tag_truthy (way_tags w) ''wall''
            \<and> \<not> tag_truthy (way_tags w) ''building''
          \<longrightarrow> (way_id w, if way_is_pit None w then Pit else Track)
                \<in> set (map (\<lambda>p. (path_id p, path_type p)) (paths td)))
       \<and> (pit_anchor = Some anchor
            \<and> find_pit_lane (ps_nodes (parse_elements elements)) anchor
                 (ps_ways (parse_elements elements)) None None = Inr (Some pid)
            \<and> pid \<noteq> 0 \<and> way_id w \<noteq> pid
          \<longrightarrow> way_id w \<notin> set (map path_id (paths td)))"
proof -
  let ?nodes = "ps_nodes (parse_elements elements)"
  let ?ways = "ps_ways (parse_elements elements)"
  from process_osm_data_kinds [OF res]
  obtain p where p: "(case pit_anchor of None \<Rightarrow> Inr None
                | Some anchor \<Rightarrow> find_pit_lane ?nodes anchor ?ways None None) = Inr p"
    and kinds: "map (\<lambda>p. (path_id p, path_type p)) (paths td)
             = map (\<lambda>w. (way_id w, if way_is_pit p w then Pit else Track))
                 (filter (way_kept ?nodes p) ?ways)"
    by blast
  have ids: "map path_id (paths td) = map way_id (filter (way_kept ?nodes p) ?ways)"
  proof -
    have "map path_id (paths td) = map fst (map (\<lambda>p. (path_id p, path_type p)) (paths td))"
      by (simp add: comp_def)
    also have "\<dots> = map way_id (filter (way_kept ?nodes p) ?ways)"
      unfolding kinds by (simp add: comp_def)
    finally show ?thesis .
  qed
  have a: "(way_id w, if way_is_pit None w then Pit else Track)
                \<in> set (map (\<lambda>p. (path_id p, path_type p)) (paths td))"
    if "pit_anchor = None" "way_nodes w = Some ids" "2 \<le> length ids"
       "2 \<le> length (resolve_nodes ?nodes ids)"
       "\<not> tag_truthy (way_tags w) ''barrier''" "\<not> tag_truthy (way_tags w) ''wall''"
       "\<not> tag_truthy (way_tags w) ''building''"
  proof -
    have "p = None" using p that(1) by simp
    moreover have "way_kept ?nodes None w"
      using that by (simp add: way_kept_def way_filtered_def)
    ultimately show ?thesis
      unfolding kinds using w by force
  qed
  have b: "way_id w \<notin> set (map path_id (paths td))"
    if "pit_anchor = Some anchor" "find_pit_lane ?nodes anchor ?ways None None = Inr (Some pid)"
       "pid \<noteq> 0" "way_id w \<noteq> pid"
  proof
    assume "way_id w \<in> set (map path_id (paths td))"
    then obtain w' where w': "w' \<in> set ?ways" "way_kept ?nodes p w'" "way_id w' = way_id w"
      unfolding ids by auto
    have "w' = w"
      using distinct_way_ids [of elements] w w'(1,3)
      by (meson distinct_map inj_onD)
    moreover have "p = Some pid" using p that(1,2) by simp
    ultimately have "way_kept ?nodes (Some pid) w" using w'(2) by simp
    then show False
      using that(3,4) svc by (auto simp: way_kept_def way_filtered_def split: option.splits)
  qed
  show ?thesis using a b by blast
qed

lemma process_osm_data_Inr:
  assumes "ps_ways (parse_elements els) \<noteq> []"
    and "(case pit_anchor of None \<Rightarrow> Inr None
          | Some anchor \<Rightarrow> find_pit_lane (ps_nodes (parse_elements els)) anchor
                             (ps_ways (parse_elements els)) None None) = Inr pid"
  shows "\<exists>td. process_osm_data pw (Some els) name pit_anchor = Inr td"
  using assms by (simp add: process_osm_data_def Let_def)

lemma service_only_ways:
  "ps_ways (parse_elements service_only) = [way7]"
  by (simp add: parse_elements_def service_only_def way7_def)

lemma two_service_ways:
  "ps_ways (parse_elements two_service) = [way7, way8]"
  by (simp add: parse_elements_def two_service_def way7_def way8_def)

lemma two_service_nodes:
  "ps_nodes (parse_elements two_service) 1 = Some \<lparr>rp_lat = 1, rp_lon = 0, rp_z = None\<rparr>"
  "ps_nodes (parse_elements two_service) 3 = Some \<lparr>rp_lat = 0, rp_lon = 0, rp_z = None\<rparr>"
  by (simp_all add: parse_elements_def two_service_def)

lemma two_service_pit:
  "find_pit_lane (ps_nodes (parse_elements two_service)) (0, 0)
     (ps_ways (parse_elements two_service)) None None = Inr (Some 8)"
  by (simp add: two_service_ways way7_def way8_def two_service_nodes lt_inf_def Let_def)

lemma td_service_only:
  "process_osm_data (\<lambda>s. None) (Some service_only) ''Scanned Track'' None = Inr td_service_only"
proof -
  have "\<exists>td. process_osm_data (\<lambda>s. None) (Some service_only) ''Scanned Track'' None = Inr td"
    by (rule process_osm_data_Inr [where pid = None]) (simp_all add: service_only_ways)
  then show ?thesis unfolding td_service_only_def by auto
qed

lemma td_two_service:
  "process_osm_data (\<lambda>s. None) (Some two_service) ''Scanned Track'' (Some (0, 0)) = Inr td_two_service"
proof -
  have "\<exists>td. process_osm_data (\<lambda>s. None) (Some two_service) ''Scanned Track'' (Some (0, 0)) = Inr td"
    using process_osm_data_Inr [of two_service "Some (0, 0)" "Some 8"] two_service_pit
    by (simp add: two_service_ways)
  then show ?thesis unfolding td_two_service_def by auto
qed

lemma service_only_resolved:
  "length (resolve_nodes (ps_nodes (parse_elements service_only)) [1, 2]) = 2"
  by (simp add: parse_elements_def service_only_def resolve_nodes_def List.map_filter_def)

theorem service_filter_witness:
  "process_osm_data (\<lambda>s. None) (Some service_only) ''Scanned Track'' None = Inr td_service_only
   \<and> way7 \<in> set (ps_ways (parse_elements service_only))
   \<and> way_tags way7 ''highway'' = Some ''service''
   \<and> way_nodes way7 = Some [1, 2]
   \<and> 2 \<le> length (resolve_nodes (ps_nodes (parse_elements service_only)) [1, 2])
   \<and> \<not> tag_truthy (way_tags way7) ''barrier'' \<and> \<not> tag_truthy (way_tags way7) ''wall''
   \<and> \<not> tag_truthy (way_tags way7) ''building''
   \<and> (7, Track) \<in> set (map (\<lambda>p. (path_id p, path_type p)) (paths td_service_only))
   \<and> process_osm_data (\<lambda>s. None) (Some two_service) ''Scanned Track'' (Some (0, 0))
        = Inr td_two_service
   \<and> way7 \<in> set (ps_ways (parse_elements two_service))
   \<and> find_pit_lane (ps_nodes (parse_elements two_service)) (0, 0)
        (ps_ways (parse_elements two_service)) None None = Inr (Some 8)
   \<and> way_id way7 \<noteq> 8
   \<and> way_id way7 \<notin> set (map path_id (paths td_two_service))"
proof -
  have w1: "way7 \<in> set (ps_ways (parse_elements service_only))"
    by (simp add: service_only_ways)
  have w2: "way7 \<in> set (ps_ways (parse_elements two_service))"
    by (simp add: two_service_ways)
  have svc: "way_tags way7 ''highway'' = Some ''service''"
    by (simp add: way7_def)
  have tags: "\<not> tag_truthy (way_tags way7) ''barrier''" "\<not> tag_truthy (way_tags way7) ''wall''"
    "\<not> tag_truthy (way_tags way7) ''building''" "way_nodes way7 = Some [1, 2]" "way_id way7 = 7"
    "\<not> way_is_pit None way7"
    by (simp_all add: way7_def tag_truthy_def way_is_pit_def dict_get_def)
  show ?thesis
    using service_filter [OF td_service_only w1 svc, of "[1, 2]"]
      service_filter [OF td_two_service w2 svc, of _ "(0, 0)" 8]
      td_service_only td_two_service w1 w2 svc tags service_only_resolved two_service_pit
    by simp
qed

section \<open>\<^verbatim>\<open>finalize_track\<close>: the shape of a result\<close>

lemma finalize_track_Inr:
  assumes "snd (finalize_track smooth td sf_lat sf_lon s1 s2 miles fetcher) = Inr out"
  shows "\<exists>pre. snd (prepare_spline smooth td sf_lat sf_lon miles fetcher) = Inr pre
               \<and> out = assemble td pre s1 s2"
  using assms unfolding finalize_track_def
  by (auto split: prod.splits sum.splits)


lemma scale_point_one [simp]: "scale_point 1 p = p"
  by (simp add: scale_point_def)

lemma prepare_spline_Inr:
  assumes "snd (prepare_spline smooth td sf_lat sf_lon miles fetcher) = Inr pre"
  obtains (prep) sf order spline0 total_distance where
    "chain_segments td sf_lat sf_lon = Inr (sf, order)"
    "resample (with_elevation fetcher (ordered_of td order)) ([], 0) = Inr (spline0, total_distance)"
    "scale_track miles
       (fst (normalize_elevation (smooth_if_long smooth spline0)
              (elevate_pits fetcher (mark_tracks fetcher td order)))) total_distance
       = Inr (pr_points pre, pr_total pre, pr_scaling pre)"
    "pr_pit_segs pre
       = filter (\<lambda>p. path_type p = Pit)
           (snd (normalize_elevation (smooth_if_long smooth spline0)
                  (elevate_pits fetcher (mark_tracks fetcher td order))))"
    "pr_sf_lat pre = fst sf" "pr_sf_lon pre = snd sf"
  using assms unfolding prepare_spline_def Let_def
  by (auto split: sum.splits prod.splits)


section \<open>The chain\<close>

lemma fst_nearer_end:
  "fst (nearer_end i a b acc) = Some i \<or> fst (nearer_end i a b acc) = fst acc"
  by (simp add: nearer_end_def Let_def)

lemma find_start_points:
  "find_start sf segs i acc = Inr res \<Longrightarrow> \<forall>seg \<in> set segs. points seg \<noteq> []"
  by (induction sf segs i acc rule: find_start.induct) (auto split: if_splits)

lemma find_start_index:
  assumes "find_start sf segs i acc = Inr res" "fst res = Some b"
    and "\<forall>j. fst acc = Some j \<longrightarrow> j < i"
  shows "b < i + length segs"
  using assms
proof (induction sf segs i acc rule: find_start.induct)
  case (1 sf i acc)
  then show ?case by auto
next
  case (2 sf seg segs i acc)
  let ?acc = "nearer_end i (get_distance_meters (hd (points seg)) sf)
                           (get_distance_meters (last (points seg)) sf) acc"
  from "2.prems"(1) have ne: "points seg \<noteq> []" by (auto split: if_splits)
  have "\<forall>j. fst ?acc = Some j \<longrightarrow> j < Suc i"
    using fst_nearer_end [of i _ _ acc] "2.prems"(3) by (metis less_Suc_eq option.inject)
  moreover have "find_start sf segs (Suc i) ?acc = Inr res"
    using "2.prems"(1) ne by simp
  ultimately have "b < Suc i + length segs"
    using "2.IH" [OF ne] "2.prems"(2) by blast
  then show ?case by simp
qed

lemma find_next_index:
  assumes "find_next tail used segs i acc = Inr res" "fst res = Some b"
    and "\<forall>j. fst acc = Some j \<longrightarrow> j < i"
  shows "b < i + length segs"
  using assms
proof (induction tail used segs i acc rule: find_next.induct)
  case (1 tail used ni acc)
  then show ?case by auto
next
  case (2 tail used seg segs i acc)
  show ?case
  proof (cases "i \<in> used")
    case True
    then have "find_next tail used segs (Suc i) acc = Inr res"
      using "2.prems"(1) by simp
    moreover have "\<forall>j. fst acc = Some j \<longrightarrow> j < Suc i"
      using "2.prems"(3) by (simp add: less_Suc_eq)
    ultimately have "b < Suc i + length segs"
      using "2.IH"(1) [OF True] "2.prems"(2) by blast
    then show ?thesis by simp
  next
    case False
    let ?acc = "nearer_end i (get_distance_meters tail (hd (points seg)))
                             (get_distance_meters tail (last (points seg))) acc"
    from "2.prems"(1) False have ne: "points seg \<noteq> []" by (auto split: if_splits)
    have "\<forall>j. fst ?acc = Some j \<longrightarrow> j < Suc i"
      using fst_nearer_end [of i _ _ acc] "2.prems"(3) by (metis less_Suc_eq option.inject)
    moreover have "find_next tail used segs (Suc i) ?acc = Inr res"
      using "2.prems"(1) ne False by simp
    ultimately have "b < Suc i + length segs"
      using "2.IH"(2) [OF False ne] "2.prems"(2) by blast
    then show ?thesis by simp
  qed
qed

text \<open>The chain starts with the segment it was started from, and its indices are valid.\<close>

lemma accepted_Some:
  "accepted found = Some nxt \<Longrightarrow> fst found = Some (fst nxt)"
  by (auto simp: accepted_def split: option.splits if_splits)

lemma order_loop_shape:
  assumes "order_loop segs rounds used cur rv acc = Inr order" "cur < length segs"
  shows "(rounds = 0 \<longrightarrow> order = acc)
       \<and> (0 < rounds \<longrightarrow> (\<exists>rest. order = acc @ (cur, rv) # rest))
       \<and> (\<forall>ir \<in> set order. ir \<in> set acc \<or> fst ir < length segs)"
  using assms
proof (induction segs rounds used cur rv acc rule: order_loop.induct)
  case (1 segs used cur rv acc)
  then show ?case by simp
next
  case (2 segs rounds used cur rv acc)
  let ?pts = "if rv then rev (points (segs ! cur)) else points (segs ! cur)"
  let ?acc1 = "acc @ [(cur, rv)]"
  show ?case
  proof (cases "?pts = []")
    case True
    then have "order = ?acc1" using "2.prems"(1) by (simp add: Let_def)
    then show ?thesis using "2.prems"(2) by auto
  next
    case False
    then obtain found where fn:
      "find_next (last ?pts) (insert cur used) segs 0 (None, None, False) = Inr found"
      using "2.prems"(1) by (auto simp: Let_def split: sum.splits)
    show ?thesis
    proof (cases "accepted found")
      case None
      then have "order = ?acc1"
        using "2.prems"(1) False fn by (simp add: Let_def)
      then show ?thesis using "2.prems"(2) by auto
    next
      case (Some nxt)
      have ni: "fst nxt < length segs"
        using find_next_index [OF fn accepted_Some [OF Some]] by simp
      have rec: "order_loop segs rounds (insert cur used) (fst nxt) (snd nxt) ?acc1 = Inr order"
        using "2.prems"(1) False fn Some by (simp add: Let_def)
      have IH: "(rounds = 0 \<longrightarrow> order = ?acc1)
         \<and> (0 < rounds \<longrightarrow> (\<exists>rest. order = ?acc1 @ (fst nxt, snd nxt) # rest))
         \<and> (\<forall>ir \<in> set order. ir \<in> set ?acc1 \<or> fst ir < length segs)"
        using "2.IH" [OF refl refl refl refl False fn Some rec ni] .
      then show ?thesis using "2.prems"(2) by (cases rounds) auto
    qed
  qed
qed

lemma order_segments_shape:
  assumes "order_segments segs sf = Inr order" "segs \<noteq> []"
  shows "order \<noteq> [] \<and> (\<forall>ir \<in> set order. fst ir < length segs)
         \<and> (\<forall>seg \<in> set segs. points seg \<noteq> [])"
proof -
  from assms(1) obtain found b where
    fs: "find_start sf segs 0 (None, None, False) = Inr found" and b: "fst found = Some b"
    and ol: "order_loop segs (length segs) {} b (snd (snd found)) [] = Inr order"
    by (auto simp: order_segments_def split: sum.splits option.splits)
  have "b < length segs" using find_start_index [OF fs b] by simp
  from order_loop_shape [OF ol this] assms(2) find_start_points [OF fs]
  show ?thesis by auto
qed

section \<open>Resampling\<close>

lemma resample_point_last:
  "fst (resample_point w ppr st) \<noteq> []
   \<and> sp_dist (last (fst (resample_point w ppr st))) = snd (resample_point w ppr st)"
  by (simp add: resample_point_def Let_def split: prod.splits)

lemma fold_resample_point_last:
  assumes "pprs \<noteq> [] \<or> (fst st \<noteq> [] \<and> sp_dist (last (fst st)) = snd st)"
  shows "fst (fold (resample_point w) pprs st) \<noteq> []
         \<and> sp_dist (last (fst (fold (resample_point w) pprs st)))
             = snd (fold (resample_point w) pprs st)"
  using assms
proof (induction pprs arbitrary: st)
  case Nil
  then show ?case by simp
next
  case (Cons ppr pprs)
  show ?case
    using Cons.IH [of "resample_point w ppr st"] resample_point_last [of w ppr st]
    by simp
qed

lemma resample_last:
  assumes "resample segs st = Inr res"
    and "(fst st \<noteq> [] \<and> sp_dist (last (fst st)) = snd st) \<or> (segs \<noteq> [] \<and> os_points (hd segs) \<noteq> [])"
  shows "fst res \<noteq> [] \<and> sp_dist (last (fst res)) = snd res"
  using assms
proof (induction segs st rule: resample.induct)
  case (1 st)
  then show ?case by auto
next
  case (2 seg segs st)
  let ?pprs = "zip (os_points seg) (zip (os_rawPoints seg) (hd (os_rawPoints seg) # os_rawPoints seg))"
  let ?st = "fold (resample_point (os_width seg)) ?pprs st"
  from "2.prems"(1) have len: "\<not> length (os_rawPoints seg) < length (os_points seg)"
    and rec: "resample segs ?st = Inr res"
    by (auto split: if_splits)
  have "?pprs \<noteq> [] \<or> (fst st \<noteq> [] \<and> sp_dist (last (fst st)) = snd st)"
  proof (cases "os_points seg = []")
    case True
    then show ?thesis using "2.prems"(2) by simp
  next
    case False
    then have "os_rawPoints seg \<noteq> []" using len by auto
    then show ?thesis using False
      by (cases "os_points seg"; cases "os_rawPoints seg") simp_all
  qed
  then have "fst ?st \<noteq> [] \<and> sp_dist (last (fst ?st)) = snd ?st"
    by (rule fold_resample_point_last)
  then show ?case using "2.IH" [OF len rec] by blast
qed

lemma length_elevate [simp]: "length (elevate fetcher segs raws) = length raws"
  by (simp add: elevate_def split: option.splits)

lemma os_points_with_elevation:
  "map os_points (with_elevation fetcher segs) = map os_points segs"
  by (simp add: with_elevation_def comp_def)

lemma chain_segments_shape:
  assumes "chain_segments td sf_lat sf_lon = Inr (sf, order)"
  shows "ordered_of td order \<noteq> [] \<and> os_points (hd (ordered_of td order)) \<noteq> []"
proof -
  let ?segs = "filter (\<lambda>p. path_type p = Track) (paths td)"
  from assms have ne: "?segs \<noteq> []"
    and os: "order_segments ?segs (project_to_local_meters (fst sf) (snd sf) (center_lat td) (center_lon td))
              = Inr order"
    by (auto simp: chain_segments_def Let_def split: if_splits sum.splits)
  from order_segments_shape [OF os ne]
  have o: "order \<noteq> []" and idx: "\<forall>ir \<in> set order. fst ir < length ?segs"
    and pts: "\<forall>seg \<in> set ?segs. points seg \<noteq> []"
    by auto
  have "fst (hd order) < length ?segs" using o idx by simp
  then have "points (?segs ! fst (hd order)) \<noteq> []" using pts nth_mem by blast
  then have "os_points (make_ordered ?segs (hd order)) \<noteq> []"
    by (simp add: make_ordered_def Let_def)
  then show ?thesis using o by (simp add: ordered_of_def hd_map)
qed

lemma spline0_last:
  assumes "chain_segments td sf_lat sf_lon = Inr (sf, order)"
    and "resample (with_elevation fetcher (ordered_of td order)) ([], 0) = Inr (spline0, total_distance)"
  shows "spline0 \<noteq> [] \<and> sp_dist (last spline0) = total_distance"
proof -
  have "with_elevation fetcher (ordered_of td order) \<noteq> []
        \<and> os_points (hd (with_elevation fetcher (ordered_of td order))) \<noteq> []"
    using chain_segments_shape [OF assms(1)]
    by (simp add: with_elevation_def hd_map)
  then show ?thesis using resample_last [OF assms(2)] by simp
qed

section \<open>Smoothing, normalisation and scaling keep the distances\<close>

lemma length_smooth_z [simp]: "length (smooth_z smooth sps) = length sps"
  by (simp add: smooth_z_def Let_def)

lemma dist_smooth_z: "map sp_dist (smooth_z smooth sps) = map sp_dist sps"
  by (rule nth_equalityI) (simp_all add: smooth_z_def Let_def)

lemma length_smooth_if_long [simp]: "length (smooth_if_long smooth sps) = length sps"
  by (simp add: smooth_if_long_def)

lemma dist_smooth_if_long: "map sp_dist (smooth_if_long smooth sps) = map sp_dist sps"
  by (simp add: smooth_if_long_def dist_smooth_z)

lemma dist_normalize:
  "map sp_dist (fst (normalize_elevation sps ps)) = map sp_dist sps"
  by (simp add: normalize_elevation_def Let_def shift_spline_z_def comp_def)

lemma length_normalize [simp]:
  "length (fst (normalize_elevation sps ps)) = length sps"
  by (simp add: normalize_elevation_def Let_def)

lemma scale_track_Inr:
  assumes "scale_track miles sps total_distance = Inr (sps', total', k)"
  shows "sps' = map (scale_point k) sps \<and> total' = total_distance * k
         \<and> (case miles of
              None \<Rightarrow> k = 1
            | Some m \<Rightarrow> if m > 0 then total_distance \<noteq> 0 \<and> k = m * (160934 / 100) / total_distance
                        else k = 1)"
  using assms
  by (auto simp: scale_track_def Let_def map_idI split: option.splits if_splits)

lemma prepared_last:
  assumes "snd (prepare_spline smooth td sf_lat sf_lon miles fetcher) = Inr pre"
  shows "pr_points pre \<noteq> [] \<and> sp_dist (last (pr_points pre)) = pr_total pre"
  using assms
proof (cases rule: prepare_spline_Inr)
  case (prep sf order spline0 total_distance)
  let ?n = "fst (normalize_elevation (smooth_if_long smooth spline0)
              (elevate_pits fetcher (mark_tracks fetcher td order)))"
  from spline0_last [OF prep(1) prep(2)]
  have s0: "spline0 \<noteq> []" "sp_dist (last spline0) = total_distance"
    by simp_all
  have dn: "map sp_dist ?n = map sp_dist spline0"
    by (simp add: dist_normalize dist_smooth_if_long)
  have "length ?n = length spline0" by simp
  then have nn: "?n \<noteq> []" using s0(1) by (metis length_0_conv)
  have "sp_dist (last ?n) = last (map sp_dist ?n)" using nn by (simp add: last_map)
  also have "\<dots> = sp_dist (last spline0)" unfolding dn using s0(1) by (simp add: last_map)
  finally have ln: "sp_dist (last ?n) = total_distance" using s0(2) by simp
  from scale_track_Inr [OF prep(3)]
  have p: "pr_points pre = map (scale_point (pr_scaling pre)) ?n"
    and t: "pr_total pre = total_distance * pr_scaling pre"
    by simp_all
  show ?thesis
    unfolding p t using nn ln by (simp add: last_map scale_point_def)
qed

section \<open>Rotation\<close>

lemma redistance_fields:
  "map pt_z (fst (redistance prev t ps)) = map pt_z ps
   \<and> length (fst (redistance prev t ps)) = length ps"
  by (induction prev t ps rule: redistance.induct) (simp_all add: Let_def case_prod_beta)

lemma redistance_last:
  "ps \<noteq> [] \<Longrightarrow> fst (redistance prev t ps) \<noteq> []
     \<and> sp_dist (last (fst (redistance prev t ps))) = snd (redistance prev t ps)"
proof (induction prev t ps rule: redistance.induct)
  case (1 prev t)
  then show ?case by simp
next
  case (2 prev t p ps)
  show ?case
  proof (cases "ps = []")
    case True
    then show ?thesis by (simp add: Let_def)
  next
    case False
    then show ?thesis using "2.IH" [OF refl] by (simp add: Let_def case_prod_beta)
  qed
qed

lemma redistance_nil: "redistance prev t [] = ([], t)"
  by simp

lemma rotate_z:
  "set (map pt_z (fst (rotate_to_sf i sps t))) = set (map pt_z sps)"
proof (cases "0 < i")
  case False
  then show ?thesis by (simp add: rotate_to_sf_def)
next
  case True
  let ?r = "drop i sps @ take i sps"
  have s: "set (map pt_z ?r) = set (map pt_z sps)"
  proof -
    have "set ?r = set (take i sps) \<union> set (drop i sps)" by (simp add: Un_commute)
    also have "\<dots> = set (take i sps @ drop i sps)" by (simp only: set_append)
    also have "\<dots> = set sps" by (simp only: append_take_drop_id)
    finally show ?thesis by (simp only: set_map)
  qed
  show ?thesis
  proof (cases ?r)
    case Nil
    then show ?thesis using True s by (simp add: rotate_to_sf_def)
  next
    case (Cons p0 ps)
    have "map pt_z (fst (rotate_to_sf i sps t)) = pt_z p0 # map pt_z ps"
      using True Cons redistance_fields [of p0 0 ps]
      by (simp add: rotate_to_sf_def Let_def case_prod_beta)
    then show ?thesis using s Cons by simp
  qed
qed

lemma rotate_length [simp]: "length (fst (rotate_to_sf i sps t)) = length sps"
proof (cases "0 < i")
  case False
  then show ?thesis by (simp add: rotate_to_sf_def)
next
  case True
  let ?r = "drop i sps @ take i sps"
  have l: "length ?r = length sps" by simp
  show ?thesis
  proof (cases ?r)
    case Nil
    then show ?thesis using True l by (simp add: rotate_to_sf_def)
  next
    case (Cons p0 ps)
    then show ?thesis using True l redistance_fields [of p0 0 ps]
      by (simp add: rotate_to_sf_def Let_def case_prod_beta)
  qed
qed

lemma rotate_last:
  assumes "sps \<noteq> []" "sp_dist (last sps) = t"
  shows "fst (rotate_to_sf i sps t) \<noteq> []
         \<and> sp_dist (last (fst (rotate_to_sf i sps t))) = snd (rotate_to_sf i sps t)"
proof (cases "0 < i")
  case False
  then show ?thesis using assms by (simp add: rotate_to_sf_def)
next
  case True
  let ?r = "drop i sps @ take i sps"
  have "?r \<noteq> []" using assms(1) by (cases "i < length sps") simp_all
  then obtain p0 ps where r: "?r = p0 # ps" by (cases ?r) auto
  show ?thesis
  proof (cases "ps = []")
    case True
    then show ?thesis using \<open>0 < i\<close> r by (simp add: rotate_to_sf_def Let_def)
  next
    case False
    then show ?thesis using \<open>0 < i\<close> r redistance_last [OF False, of p0 0]
      by (simp add: rotate_to_sf_def Let_def case_prod_beta)
  qed
qed

lemma first_index_ge_range:
  "first_index_ge t ps i = - 1 \<or> (int i \<le> first_index_ge t ps i \<and> first_index_ge t ps i < int (i + length ps))"
  by (induction t ps i rule: first_index_ge.induct) auto

lemma first_index_ge_none:
  "first_index_ge t ps i = - 1 \<longleftrightarrow> (\<forall>p \<in> set ps. sp_dist p < t)"
  by (induction t ps i rule: first_index_ge.induct) auto

lemma first_index_ge_found:
  assumes "first_index_ge t ps i \<noteq> - 1"
  shows "t \<le> sp_dist (ps ! (nat (first_index_ge t ps i) - i))
         \<and> (\<forall>j < nat (first_index_ge t ps i) - i. sp_dist (ps ! j) < t)"
  using assms
proof (induction t ps i rule: first_index_ge.induct)
  case (1 t i)
  then show ?case by simp
next
  case (2 t p ps i)
  show ?case
  proof (cases "t \<le> sp_dist p")
    case True
    then show ?thesis by simp
  next
    case False
    then have eq: "first_index_ge t (p # ps) i = first_index_ge t ps (Suc i)" by simp
    then have ne: "first_index_ge t ps (Suc i) \<noteq> - 1" using "2.prems" by simp
    from first_index_ge_range [of t ps "Suc i"] ne
    have r: "int (Suc i) \<le> first_index_ge t ps (Suc i)" by auto
    let ?k = "nat (first_index_ge t ps (Suc i))"
    have k: "?k - i = Suc (?k - Suc i)" using r by linarith
    from "2.IH" [OF False ne]
    have a: "t \<le> sp_dist (ps ! (?k - Suc i))"
      and b: "\<forall>j < ?k - Suc i. sp_dist (ps ! j) < t" by simp_all
    have "\<forall>j < ?k - i. sp_dist ((p # ps) ! j) < t"
    proof (intro allI impI)
      fix j assume "j < ?k - i"
      then show "sp_dist ((p # ps) ! j) < t"
        using False b k by (cases j) auto
    qed
    then show ?thesis unfolding eq k using a by simp
  qed
qed

lemma first_index_ge_is_first:
  "first_index_ge t ps 0 \<noteq> - 1 \<Longrightarrow> is_first_index_ge t ps (first_index_ge t ps 0)"
  using first_index_ge_range [of t ps 0] first_index_ge_found [of t ps 0]
  by (auto simp: is_first_index_ge_def)

lemma first_index_ge_mono:
  assumes "t \<le> t'"
  shows "first_index_ge t' ps i = - 1 \<or> (first_index_ge t ps i \<noteq> - 1 \<and> first_index_ge t ps i \<le> first_index_ge t' ps i)"
  using assms
proof (induction t' ps i rule: first_index_ge.induct)
  case (1 t' i)
  then show ?case by simp
next
  case (2 t' p ps i)
  show ?case
  proof (cases "t \<le> sp_dist p")
    case True
    then show ?thesis
      using first_index_ge_range [of t' "p # ps" i] by auto
  next
    case False
    then have "\<not> t' \<le> sp_dist p" using "2.prems" by simp
    then show ?thesis using False "2.IH" "2.prems" by simp
  qed
qed

lemma assemble_sectors:
  "s1LengthMeters (assemble td pre s1 s2) = dict_get s1 0 * (254 / 10000)
   \<and> s2LengthMeters (assemble td pre s1 s2) = dict_get s2 0 * (254 / 10000)
   \<and> nodesCount (assemble td pre s1 s2) = length (splinePoints (assemble td pre s1 s2))
   \<and> s1EndIndex (assemble td pre s1 s2)
       = (if s1LengthMeters (assemble td pre s1 s2) > 0
          then first_index_ge (s1LengthMeters (assemble td pre s1 s2))
                 (splinePoints (assemble td pre s1 s2)) 0
          else - 1)
   \<and> s2EndIndex (assemble td pre s1 s2)
       = (if s2LengthMeters (assemble td pre s1 s2) > 0
          then first_index_ge (s1LengthMeters (assemble td pre s1 s2)
                                + s2LengthMeters (assemble td pre s1 s2))
                 (splinePoints (assemble td pre s1 s2)) 0
          else - 1)
   \<and> splinePoints (assemble td pre s1 s2)
       = fst (rotate_to_sf (start_finish_index td pre) (pr_points pre) (pr_total pre))
   \<and> totalLen (assemble td pre s1 s2)
       = snd (rotate_to_sf (start_finish_index td pre) (pr_points pre) (pr_total pre))"
  by (simp add: assemble_def Let_def case_prod_beta)

section \<open>Cumulative distance never decreases\<close>

lemma get_distance_meters_nonneg [simp]: "0 \<le> get_distance_meters p q"
  by (simp add: get_distance_meters_def)

lemma sp_dist_interpolate [simp]:
  "sp_dist (interpolate w last_p p last_raw raw_p d t s) = t + real s"
  by (simp add: interpolate_def Let_def)

lemma sorted_interpolated:
  "sorted (map (\<lambda>s. t + real s) [1..<Suc n])"
proof -
  have "sorted_wrt (\<le>) [1..<Suc n]" by (rule sorted_upt)
  then have "sorted_wrt (\<lambda>x y. t + real x \<le> t + real y) [1..<Suc n]"
    by (rule sorted_wrt_mono_rel [rotated]) simp
  then show ?thesis by (simp only: sorted_map)
qed

lemma resample_point_inv:
  assumes "dist_inv st"
  shows "dist_inv (resample_point w ppr st)"
proof -
  obtain sps t where st: "st = (sps, t)" by (cases st)
  from assms st have srt: "sorted (map sp_dist sps)" and le: "\<forall>p \<in> set sps. sp_dist p \<le> t"
    and t0: "0 \<le> t"
    by (simp_all add: dist_inv_def)
  show ?thesis
  proof (cases "sps = []")
    case True
    then show ?thesis using t0 by (simp add: st resample_point_def dist_inv_def Let_def)
  next
    case False
    let ?d = "get_distance_meters (last sps) (fst ppr)"
    have d0: "0 \<le> ?d" by simp
    show ?thesis
    proof (cases "?d > 1")
      case True
      let ?n = "nat \<lfloor>?d\<rfloor>"
      let ?mid = "map (\<lambda>s. t + real s) [1..<Suc ?n]"
      have fl: "real ?n \<le> ?d" using True by linarith
      have "\<And>s. s < Suc ?n \<Longrightarrow> real s \<le> ?d" using fl by linarith
      then have mid_le: "\<forall>x \<in> set ?mid. x \<le> t + ?d" by (auto simp del: upt_Suc)
      have mid_ge: "\<forall>x \<in> set ?mid. t \<le> x" by auto
      have "map sp_dist (fst (resample_point w ppr st)) = map sp_dist sps @ ?mid @ [t + ?d]"
        using False True by (simp add: st resample_point_def Let_def comp_def)
      moreover have "sorted (map sp_dist sps @ ?mid @ [t + ?d])"
        unfolding sorted_append
        using srt le mid_le mid_ge sorted_interpolated [of t ?n] d0
        by (auto simp del: upt_Suc intro: order_trans)
      moreover have "snd (resample_point w ppr st) = t + ?d"
        using False by (simp add: st resample_point_def Let_def)
      moreover have "\<forall>x \<in> set (map sp_dist sps @ ?mid @ [t + ?d]). x \<le> t + ?d"
        using le mid_le d0 by (auto simp del: upt_Suc intro: order_trans)
      ultimately show ?thesis
        using t0 d0 unfolding dist_inv_def
        by (metis (no_types, lifting) add_nonneg_nonneg image_eqI list.set_map)
    next
      case nointerp: False
      have "map sp_dist (fst (resample_point w ppr st)) = map sp_dist sps @ [t + ?d]"
        using False nointerp by (simp add: st resample_point_def Let_def)
      moreover have "sorted (map sp_dist sps @ [t + ?d])"
        unfolding sorted_append using srt le d0 by (auto intro: order_trans)
      moreover have "snd (resample_point w ppr st) = t + ?d"
        using False by (simp add: st resample_point_def Let_def)
      moreover have "\<forall>x \<in> set (map sp_dist sps @ [t + ?d]). x \<le> t + ?d"
        using le d0 by (auto intro: order_trans)
      ultimately show ?thesis
        using t0 d0 unfolding dist_inv_def
        by (metis (no_types, lifting) add_nonneg_nonneg image_eqI list.set_map)
    qed
  qed
qed

lemma fold_resample_point_inv:
  "dist_inv st \<Longrightarrow> dist_inv (fold (resample_point w) pprs st)"
  by (induction pprs arbitrary: st) (simp_all add: resample_point_inv)

lemma resample_inv:
  "resample segs st = Inr res \<Longrightarrow> dist_inv st \<Longrightarrow> dist_inv res"
  by (induction segs st rule: resample.induct)
     (auto simp: fold_resample_point_inv split: if_splits)

lemma sorted_scale:
  assumes "0 \<le> k" "sorted xs"
  shows "sorted (map (\<lambda>d. d * k) (xs :: real list))"
proof -
  have "sorted_wrt (\<lambda>x y. x * k \<le> y * k) xs"
    using assms(2) by (rule sorted_wrt_mono_rel [rotated]) (simp add: assms(1) mult_right_mono)
  then show ?thesis by (simp only: sorted_map)
qed

lemma prepared_sorted:
  assumes "snd (prepare_spline smooth td sf_lat sf_lon miles fetcher) = Inr pre"
  shows "sorted (map sp_dist (pr_points pre))"
  using assms
proof (cases rule: prepare_spline_Inr)
  case (prep sf order spline0 total_distance)
  let ?n = "fst (normalize_elevation (smooth_if_long smooth spline0)
              (elevate_pits fetcher (mark_tracks fetcher td order)))"
  have "dist_inv ([], 0)" by (simp add: dist_inv_def)
  from resample_inv [OF prep(2) this]
  have srt: "sorted (map sp_dist spline0)" and t0: "0 \<le> total_distance"
    by (simp_all add: dist_inv_def)
  have dn: "map sp_dist ?n = map sp_dist spline0"
    by (simp add: dist_normalize dist_smooth_if_long)
  from scale_track_Inr [OF prep(3)]
  have p: "pr_points pre = map (scale_point (pr_scaling pre)) ?n"
    and k: "(case miles of None \<Rightarrow> pr_scaling pre = 1
            | Some m \<Rightarrow> if m > 0 then total_distance \<noteq> 0
                              \<and> pr_scaling pre = m * (160934 / 100) / total_distance
                        else pr_scaling pre = 1)"
    by simp_all
  have k0: "0 \<le> pr_scaling pre"
    using k t0 by (auto split: option.splits if_splits)
  have "map sp_dist (pr_points pre) = map (\<lambda>d. d * pr_scaling pre) (map sp_dist ?n)"
    unfolding p by (simp add: scale_point_def comp_def)
  then show ?thesis using sorted_scale [OF k0 srt] dn by simp
qed

lemma redistance_sorted:
  "sorted (map sp_dist (fst (redistance prev t ps)))
   \<and> (\<forall>p \<in> set (fst (redistance prev t ps)). t \<le> sp_dist p)"
proof (induction prev t ps rule: redistance.induct)
  case (1 prev t)
  then show ?case by simp
next
  case (2 prev t p ps)
  let ?t = "t + get_distance_meters prev p"
  let ?rest = "fst (redistance p ?t ps)"
  have t: "t \<le> ?t" by simp
  from "2.IH" [OF refl]
  have srt: "sorted (map sp_dist ?rest)" and ge: "\<forall>q \<in> set ?rest. ?t \<le> sp_dist q"
    by simp_all
  have ge': "\<forall>q \<in> set ?rest. t \<le> sp_dist q"
    using ge t by (meson order_trans)
  show ?case using srt ge ge' t
    by (simp add: Let_def case_prod_beta)
qed

lemma rotate_sorted:
  assumes "sorted (map sp_dist sps)"
  shows "sorted (map sp_dist (fst (rotate_to_sf i sps t)))"
proof (cases "0 < i")
  case False
  then show ?thesis using assms by (simp add: rotate_to_sf_def)
next
  case True
  show ?thesis
  proof (cases "drop i sps @ take i sps")
    case Nil
    then show ?thesis using True by (simp add: rotate_to_sf_def)
  next
    case (Cons p0 ps)
    then show ?thesis using True redistance_sorted [of p0 0 ps]
      by (simp add: rotate_to_sf_def Let_def case_prod_beta)
  qed
qed

lemma finalized_distances:
  assumes "snd (finalize_track smooth td sf_lat sf_lon s1 s2 miles fetcher) = Inr out"
  shows "splinePoints out \<noteq> [] \<and> sorted (map sp_dist (splinePoints out))
         \<and> sp_dist (last (splinePoints out)) = totalLen out"
proof -
  from finalize_track_Inr [OF assms] obtain pre where
    pre: "snd (prepare_spline smooth td sf_lat sf_lon miles fetcher) = Inr pre"
    and out: "out = assemble td pre s1 s2"
    by blast
  let ?r = "rotate_to_sf (start_finish_index td pre) (pr_points pre) (pr_total pre)"
  have sp: "splinePoints out = fst ?r" and tl: "totalLen out = snd ?r"
    unfolding out using assemble_sectors [of td pre s1 s2] by simp_all
  from prepared_last [OF pre] have "fst ?r \<noteq> [] \<and> sp_dist (last (fst ?r)) = snd ?r"
    using rotate_last by blast
  moreover have "sorted (map sp_dist (fst ?r))"
    using rotate_sorted [OF prepared_sorted [OF pre]] .
  ultimately show ?thesis unfolding sp tl by simp
qed

lemma sorted_below_last:
  assumes "xs \<noteq> []" "sorted (map f xs)"
  shows "(\<forall>p \<in> set xs. f p < (t::real)) \<longleftrightarrow> f (last xs) < t"
proof
  assume "\<forall>p \<in> set xs. f p < t"
  then show "f (last xs) < t" using assms(1) by simp
next
  assume l: "f (last xs) < t"
  show "\<forall>p \<in> set xs. f p < t"
  proof
    fix p assume "p \<in> set xs"
    then obtain i where i: "i < length xs" "xs ! i = p" by (auto simp: in_set_conv_nth)
    have "map f xs ! i \<le> map f xs ! (length xs - 1)"
      using assms i by (intro sorted_nth_mono) auto
    then have "f p \<le> f (last xs)"
      using i assms(1) by (simp add: last_conv_nth)
    then show "f p < t" using l by simp
  qed
qed

text \<open>
  Claim C7, amended. In every result of \<^verbatim>\<open>finalize_track\<close>: if both sector lengths are
  positive and their sum is at most the total track length, then
  \<open>0 \<le> s1EndIndex \<le> s2EndIndex < N\<close>; an index other than \<open>-1\<close> is the first index whose
  cumulative distance reaches its target (the sector-1 length, or the sum of both
  lengths); and an index is \<open>-1\<close> exactly when its sector length is not positive or the
  total track length is below its target. The lengths are the inches given times 0.0254.
\<close>

theorem sector_indices:
  assumes "snd (finalize_track smooth td sf_lat sf_lon s1 s2 miles fetcher) = Inr out"
  shows "(0 < s1LengthMeters out \<and> 0 < s2LengthMeters out
            \<and> s1LengthMeters out + s2LengthMeters out \<le> totalLen out
          \<longrightarrow> 0 \<le> s1EndIndex out \<and> s1EndIndex out \<le> s2EndIndex out
              \<and> s2EndIndex out < int (nodesCount out))
       \<and> (s1EndIndex out \<noteq> - 1
          \<longrightarrow> is_first_index_ge (s1LengthMeters out) (splinePoints out) (s1EndIndex out))
       \<and> (s2EndIndex out \<noteq> - 1
          \<longrightarrow> is_first_index_ge (s1LengthMeters out + s2LengthMeters out) (splinePoints out)
                (s2EndIndex out))
       \<and> (s1EndIndex out = - 1
          \<longleftrightarrow> s1LengthMeters out \<le> 0 \<or> totalLen out < s1LengthMeters out)
       \<and> (s2EndIndex out = - 1
          \<longleftrightarrow> s2LengthMeters out \<le> 0 \<or> totalLen out < s1LengthMeters out + s2LengthMeters out)
       \<and> s1LengthMeters out = dict_get s1 0 * (254 / 10000)
       \<and> s2LengthMeters out = dict_get s2 0 * (254 / 10000)
       \<and> nodesCount out = length (splinePoints out)"
proof -
  from finalize_track_Inr [OF assms] obtain pre where out: "out = assemble td pre s1 s2"
    by blast
  let ?sps = "splinePoints out"
  let ?s1 = "s1LengthMeters out"
  let ?s2 = "s2LengthMeters out"
  from assemble_sectors [of td pre s1 s2]
  have l1: "?s1 = dict_get s1 0 * (254 / 10000)" and l2: "?s2 = dict_get s2 0 * (254 / 10000)"
    and n: "nodesCount out = length ?sps"
    and i1: "s1EndIndex out = (if ?s1 > 0 then first_index_ge ?s1 ?sps 0 else - 1)"
    and i2: "s2EndIndex out = (if ?s2 > 0 then first_index_ge (?s1 + ?s2) ?sps 0 else - 1)"
    unfolding out by simp_all
  from finalized_distances [OF assms]
  have ne: "?sps \<noteq> []" and srt: "sorted (map sp_dist ?sps)"
    and lst: "sp_dist (last ?sps) = totalLen out"
    by simp_all
  have none: "\<And>t. first_index_ge t ?sps 0 = - 1 \<longleftrightarrow> totalLen out < t"
    using first_index_ge_none [of _ ?sps 0] sorted_below_last [OF ne srt] lst by simp
  have m1: "s1EndIndex out = - 1 \<longleftrightarrow> ?s1 \<le> 0 \<or> totalLen out < ?s1"
    unfolding i1 using none [of ?s1] by auto
  have m2: "s2EndIndex out = - 1 \<longleftrightarrow> ?s2 \<le> 0 \<or> totalLen out < ?s1 + ?s2"
    unfolding i2 using none [of "?s1 + ?s2"] by auto
  have f1: "s1EndIndex out \<noteq> - 1 \<longrightarrow> is_first_index_ge ?s1 ?sps (s1EndIndex out)"
    unfolding i1 using first_index_ge_is_first [of ?s1 ?sps] by auto
  have f2: "s2EndIndex out \<noteq> - 1 \<longrightarrow> is_first_index_ge (?s1 + ?s2) ?sps (s2EndIndex out)"
    unfolding i2 using first_index_ge_is_first [of "?s1 + ?s2" ?sps] by auto
  have ord: "0 \<le> s1EndIndex out \<and> s1EndIndex out \<le> s2EndIndex out
              \<and> s2EndIndex out < int (nodesCount out)"
    if h: "0 < ?s1" "0 < ?s2" "?s1 + ?s2 \<le> totalLen out"
  proof -
    have e2: "s2EndIndex out = first_index_ge (?s1 + ?s2) ?sps 0"
      and e1: "s1EndIndex out = first_index_ge ?s1 ?sps 0"
      using i1 i2 h by simp_all
    have found2: "first_index_ge (?s1 + ?s2) ?sps 0 \<noteq> - 1"
      using none [of "?s1 + ?s2"] h(3) by simp
    have "?s1 \<le> ?s1 + ?s2" using h(2) by simp
    from first_index_ge_mono [OF this, of ?sps 0] found2
    have found1: "first_index_ge ?s1 ?sps 0 \<noteq> - 1"
      and le: "first_index_ge ?s1 ?sps 0 \<le> first_index_ge (?s1 + ?s2) ?sps 0"
      by simp_all
    from first_index_ge_range [of ?s1 ?sps 0] found1
    have "0 \<le> first_index_ge ?s1 ?sps 0" by simp
    moreover from first_index_ge_range [of "?s1 + ?s2" ?sps 0] found2
    have "first_index_ge (?s1 + ?s2) ?sps 0 < int (length ?sps)" by simp
    ultimately show ?thesis unfolding e1 e2 n using le by simp
  qed
  show ?thesis using ord m1 m2 f1 f2 l1 l2 n by blast
qed

lemma sector_paths_no_points:
  "vp \<in> set (sector_paths sps a b) \<Longrightarrow> vp_points vp = None"
  by (auto simp: sector_paths_def Let_def split: if_splits)

lemma concat_sector_paths:
  "concat (map (\<lambda>vp. case vp_points vp of None \<Rightarrow> []
                 | Some pts \<Rightarrow> map (\<lambda>p. dict_get (pt_z p) 0) pts) (sector_paths sps a b)) = []"
  using sector_paths_no_points [of _ sps a b] by (auto split: option.splits)

lemma pit_path_points:
  "(case vp_points (pit_path k seg) of None \<Rightarrow> []
    | Some pts \<Rightarrow> map (\<lambda>p. dict_get (pt_z p) 0) pts)
   = map (\<lambda>p. dict_get (pt_z p) 0) (points seg)"
  by (simp add: pit_path_def Let_def comp_def dict_get_def)

lemma assemble_visual:
  "visualPaths (assemble td pre s1 s2)
     = sector_paths (splinePoints (assemble td pre s1 s2)) (s1EndIndex (assemble td pre s1 s2))
         (s2EndIndex (assemble td pre s1 s2))
       @ map (pit_path (pr_scaling pre)) (pr_pit_segs pre)"
  by (simp add: assemble_def Let_def case_prod_beta)

lemma set_elevations_assemble:
  "set (elevations (assemble td pre s1 s2))
     = (\<lambda>q. dict_get (pt_z q) 0) ` set (pr_points pre)
       \<union> (\<Union>seg \<in> set (pr_pit_segs pre). (\<lambda>p. dict_get (pt_z p) 0) ` set (points seg))"
proof -
  let ?out = "assemble td pre s1 s2"
  let ?r = "rotate_to_sf (start_finish_index td pre) (pr_points pre) (pr_total pre)"
  have sp: "splinePoints ?out = fst ?r"
    using assemble_sectors [of td pre s1 s2] by simp
  obtain a b where
    vp: "visualPaths ?out = sector_paths (fst ?r) a b @ map (pit_path (pr_scaling pre)) (pr_pit_segs pre)"
    using assemble_visual [of td pre s1 s2] sp by metis
  have z: "(\<lambda>q. dict_get (pt_z q) 0) ` set (fst ?r) = (\<lambda>q. dict_get (pt_z q) 0) ` set (pr_points pre)"
  proof -
    have "(\<lambda>q. dict_get (pt_z q) 0) ` set (fst ?r) = (\<lambda>z. dict_get z 0) ` set (map pt_z (fst ?r))"
      by (simp add: image_image)
    also have "\<dots> = (\<lambda>z. dict_get z 0) ` set (map pt_z (pr_points pre))"
      by (simp only: rotate_z)
    finally show ?thesis by (simp add: image_image)
  qed
  show ?thesis
    unfolding elevations_def sp vp
    by (simp add: concat_sector_paths pit_path_points comp_def z)
qed

lemma set_map_filter_z:
  "set (List.map_filter pt_z pts) = {z. \<exists>pt \<in> set pts. pt_z pt = Some z}"
  by (induction pts) (auto simp: map_filter_simps split: option.splits)

lemma set_z_values_of:
  "set (z_values_of sps pits)
     = (\<lambda>q. dict_get (pt_z q) 0) ` set sps
       \<union> {z. \<exists>seg \<in> set pits. \<exists>pt \<in> set (points seg). pt_z pt = Some z}"
  unfolding z_values_of_def by (auto simp: set_map_filter_z)

lemma normalize_nonempty:
  assumes "sps \<noteq> []"
  shows "fst (normalize_elevation sps ps)
           = map (shift_spline_z (Min (set (z_values_of sps (filter (\<lambda>p. path_type p = Pit) ps))))) sps"
    and "filter (\<lambda>p. path_type p = Pit) (snd (normalize_elevation sps ps))
           = map (shift_pit_z (Min (set (z_values_of sps (filter (\<lambda>p. path_type p = Pit) ps)))))
                 (filter (\<lambda>p. path_type p = Pit) ps)"
proof -
  show "fst (normalize_elevation sps ps)
           = map (shift_spline_z (Min (set (z_values_of sps (filter (\<lambda>p. path_type p = Pit) ps))))) sps"
    using assms by (simp add: normalize_elevation_def Let_def)
  have "\<And>m. filter (\<lambda>p. path_type p = Pit) (map (\<lambda>p. if path_type p = Pit then shift_pit_z m p else p) ps)
           = map (shift_pit_z m) (filter (\<lambda>p. path_type p = Pit) ps)"
    by (induction ps) (simp_all add: shift_pit_z_def)
  then show "filter (\<lambda>p. path_type p = Pit) (snd (normalize_elevation sps ps))
           = map (shift_pit_z (Min (set (z_values_of sps (filter (\<lambda>p. path_type p = Pit) ps)))))
                 (filter (\<lambda>p. path_type p = Pit) ps)"
    using assms by (simp add: normalize_elevation_def Let_def)
qed

lemma z_shift_spline:
  "dict_get (pt_z (scale_point k (shift_spline_z m q))) 0 = dict_get (pt_z q) 0 - m"
  by (simp add: scale_point_def shift_spline_z_def dict_get_def)

lemma z_shift_pit:
  "(\<lambda>p. dict_get (pt_z p) 0) ` set (points (shift_pit_z m seg))
     = (\<lambda>p. case pt_z p of None \<Rightarrow> 0 | Some z \<Rightarrow> z - m) ` set (points seg)"
proof -
  let ?g = "\<lambda>pt::point. case pt_z pt of None \<Rightarrow> pt | Some z \<Rightarrow> pt\<lparr> pt_z := Some (z - m) \<rparr>"
  have g: "\<And>pt. dict_get (pt_z (?g pt)) 0 = (case pt_z pt of None \<Rightarrow> 0 | Some z \<Rightarrow> z - m)"
    by (simp add: dict_get_def split: option.splits)
  have "(\<lambda>p. dict_get (pt_z p) 0) ` set (points (shift_pit_z m seg))
          = (\<lambda>pt. dict_get (pt_z (?g pt)) 0) ` set (points seg)"
    by (simp add: shift_pit_z_def image_image)
  then show ?thesis by (simp only: g)
qed

text \<open>Shifting a finite, non-empty set by its minimum.\<close>

lemma shifted_min:
  assumes "finite Z" "Z \<noteq> {}" "E = (\<lambda>z. z - Min Z) ` Z \<union> E0" "E0 \<subseteq> {0::real}"
  shows "Min E = 0 \<and> (\<forall>e \<in> E. 0 \<le> e)"
proof -
  have fin: "finite E" using assms by (simp add: finite_subset)
  have ge: "\<forall>e \<in> E. 0 \<le> e"
    using assms by auto
  have "Min Z \<in> Z" using assms(1,2) by (rule Min_in)
  then have "0 \<in> E" using assms(3) by force
  then have "Min E = 0" using fin ge by (intro Min_eqI) auto
  then show ?thesis using ge by simp
qed

lemma elevation_sets:
  fixes P :: "point set" and f :: "'a \<Rightarrow> real"
  shows "(\<lambda>q. f q - m) ` S \<union> (\<lambda>p. case pt_z p of None \<Rightarrow> 0 | Some z \<Rightarrow> z - m) ` P
         = (\<lambda>z. z - m) ` (f ` S \<union> {z. \<exists>p \<in> P. pt_z p = Some z})
           \<union> {e. e = 0 \<and> (\<exists>p \<in> P. pt_z p = None)}"
proof (intro set_eqI iffI)
  fix e
  assume "e \<in> (\<lambda>q. f q - m) ` S \<union> (\<lambda>p. case pt_z p of None \<Rightarrow> 0 | Some z \<Rightarrow> z - m) ` P"
  then consider q where "q \<in> S" "e = f q - m"
    | p where "p \<in> P" "e = (case pt_z p of None \<Rightarrow> 0 | Some z \<Rightarrow> z - m)"
    by auto
  then show "e \<in> (\<lambda>z. z - m) ` (f ` S \<union> {z. \<exists>p \<in> P. pt_z p = Some z})
                 \<union> {e. e = 0 \<and> (\<exists>p \<in> P. pt_z p = None)}"
  proof cases
    case 1
    then show ?thesis by auto
  next
    case 2
    then show ?thesis by (cases "pt_z p") auto
  qed
next
  fix e
  assume "e \<in> (\<lambda>z. z - m) ` (f ` S \<union> {z. \<exists>p \<in> P. pt_z p = Some z})
               \<union> {e. e = 0 \<and> (\<exists>p \<in> P. pt_z p = None)}"
  then consider q where "q \<in> S" "e = f q - m"
    | p z where "p \<in> P" "pt_z p = Some z" "e = z - m"
    | p where "p \<in> P" "pt_z p = None" "e = 0"
    by auto
  then show "e \<in> (\<lambda>q. f q - m) ` S \<union> (\<lambda>p. case pt_z p of None \<Rightarrow> 0 | Some z \<Rightarrow> z - m) ` P"
  proof cases
    case 1
    then show ?thesis by auto
  next
    case 2
    then have "e = (case pt_z p of None \<Rightarrow> 0 | Some z \<Rightarrow> z - m)" by simp
    then show ?thesis using 2(1) by blast
  next
    case 3
    then have "e = (case pt_z p of None \<Rightarrow> 0 | Some z \<Rightarrow> z - m)" by simp
    then show ?thesis using 3(1) by blast
  qed
qed

lemma set_z_values_of_points:
  "set (z_values_of sps pits)
     = (\<lambda>q. dict_get (pt_z q) 0) ` set sps
       \<union> {z. \<exists>p \<in> (\<Union>seg \<in> set pits. set (points seg)). pt_z p = Some z}"
  unfolding set_z_values_of by auto

text \<open>
  Claim C6. In every result of \<^verbatim>\<open>finalize_track\<close> the minimum of the elevations over all
  spline points and all pit-lane points is exactly 0, and no elevation is negative.
\<close>

theorem elevation_normalized:
  assumes "snd (finalize_track smooth td sf_lat sf_lon s1 s2 miles fetcher) = Inr out"
  shows "Min (set (elevations out)) = 0 \<and> (\<forall>z \<in> set (elevations out). 0 \<le> z)"
proof -
  from finalize_track_Inr [OF assms] obtain pre where
    pre: "snd (prepare_spline smooth td sf_lat sf_lon miles fetcher) = Inr pre"
    and out: "out = assemble td pre s1 s2"
    by blast
  from pre show ?thesis
  proof (cases rule: prepare_spline_Inr)
    case (prep sf order spline0 total_distance)
    let ?spline1 = "smooth_if_long smooth spline0"
    let ?paths2 = "elevate_pits fetcher (mark_tracks fetcher td order)"
    let ?pits = "filter (\<lambda>p. path_type p = Pit) ?paths2"
    let ?P = "\<Union>seg \<in> set ?pits. set (points seg)"
    let ?Z = "set (z_values_of ?spline1 ?pits)"
    let ?m = "Min ?Z"
    let ?E0 = "{e::real. e = 0 \<and> (\<exists>p \<in> ?P. pt_z p = None)}"
    have "spline0 \<noteq> []" using spline0_last [OF prep(1) prep(2)] by simp
    then have "length ?spline1 \<noteq> 0" by simp
    then have ne: "?spline1 \<noteq> []" by (simp only: length_0_conv not_False_eq_True)
    have pts: "pr_points pre = map (scale_point (pr_scaling pre)) (map (shift_spline_z ?m) ?spline1)"
      using scale_track_Inr [OF prep(3)] normalize_nonempty(1) [OF ne, of ?paths2] by simp
    have pit: "pr_pit_segs pre = map (shift_pit_z ?m) ?pits"
      using prep(4) normalize_nonempty(2) [OF ne, of ?paths2] by simp
    have a: "(\<lambda>q. dict_get (pt_z q) 0) ` set (pr_points pre)
               = (\<lambda>q. dict_get (pt_z q) 0 - ?m) ` set ?spline1"
      unfolding pts by (simp add: image_image z_shift_spline)
    have b: "(\<Union>seg \<in> set (pr_pit_segs pre). (\<lambda>p. dict_get (pt_z p) 0) ` set (points seg))
               = (\<lambda>p. case pt_z p of None \<Rightarrow> 0 | Some z \<Rightarrow> z - ?m) ` ?P"
      unfolding pit by (simp add: z_shift_pit image_UN)
    have E: "set (elevations out) = (\<lambda>z. z - ?m) ` ?Z \<union> ?E0"
      unfolding out set_elevations_assemble a b
      by (simp only: set_z_values_of_points elevation_sets)
    have Zne: "?Z \<noteq> {}" using ne by (simp add: z_values_of_def)
    show ?thesis
      by (rule shifted_min [OF _ Zne E]) auto
  qed
qed






section \<open>What the calls write into their arguments\<close>

lemma update_tracks_id:
  "(\<And>p. f p = p) \<Longrightarrow> update_tracks f used k ps = ps"
  by (induction f used k ps rule: update_tracks.induct) simp_all

lemma mark_tracks_None: "mark_tracks None td order = paths td"
  by (simp add: mark_tracks_def elevate_def update_tracks_id)





lemma distance_on_axis:
  "pt_y p = pt_y q \<Longrightarrow> get_distance_meters p q = \<bar>pt_x q - pt_x p\<bar>"
  by (simp add: get_distance_meters_def)

lemma origin: "project_to_local_meters 0 0 0 0 = \<lparr> pt_x = 0, pt_y = 0, pt_z = None \<rparr>"
  by (simp add: project_to_local_meters_def Let_def)

lemma straight_fields:
  "paths (straight x0) = [straight_path x0]" "center_lat (straight x0) = 0"
  "center_lon (straight x0) = 0" "path_type (straight_path x0) = Track"
  by (simp_all add: straight_def straight_path_def)

lemma straight_order:
  "order_segments [straight_path (- 2)] \<lparr> pt_x = 0, pt_y = 0, pt_z = None \<rparr> = Inr [(0, False)]"
  "order_segments [straight_path 0] \<lparr> pt_x = 0, pt_y = 0, pt_z = None \<rparr> = Inr [(0, False)]"
  by (simp_all add: order_segments_def straight_path_def nearer_end_def lt_inf_def Let_def
      distance_on_axis accepted_def)

lemma straight_ordered:
  "ordered_of (straight x0) [(0, False)]
     = [\<lparr> os_points = points (straight_path x0), os_rawPoints = rawPoints (straight_path x0),
          os_width = 12, os_id = 1 \<rparr>]"
  by (simp add: ordered_of_def straight_fields make_ordered_def Let_def) (simp add: straight_path_def)

lemma upt_1_5: "[Suc 0..<5] = [1, 2, 3, 4]"
  by (simp add: upt_rec)

lemma straight_resample:
  "resample (ordered_of (straight (- 2)) [(0, False)]) ([], 0) = Inr (straight_spline (- 2) 1, 4)"
  "resample (ordered_of (straight 0) [(0, False)]) ([], 0) = Inr (straight_spline 0 1, 4)"
  unfolding straight_ordered
  by (simp_all add: straight_path_def resample_point_def Let_def distance_on_axis interpolate_def
      dict_get_def straight_spline_def on_axis_def upt_1_5)

lemma straight_chain:
  "chain_segments (straight (- 2)) (Some 0) (Some 0) = Inr ((0, 0), [(0, False)])"
  "chain_segments (straight 0) (Some 0) (Some 0) = Inr ((0, 0), [(0, False)])"
  by (simp_all add: chain_segments_def start_finish_def straight_fields origin
      straight_order straight_resample Let_def)

lemma straight_scaled:
  "map (scale_point 2) (straight_spline (- 2) 1) = straight_spline (- 2) 2"
  "map (scale_point 2) (straight_spline 0 1) = straight_spline 0 2"
  by (simp_all add: straight_spline_def on_axis_def scale_point_def)

lemma straight_normalize:
  "normalize_elevation (straight_spline x0 1) (paths (straight x0))
     = (straight_spline x0 1, paths (straight x0))"
  by (simp add: normalize_elevation_def Let_def z_values_of_def straight_fields
      straight_spline_def on_axis_def dict_get_def shift_spline_z_def)

lemma straight_prepare:
  "prepare_spline (\<lambda>zs. zs) (straight (- 2)) (Some 0) (Some 0) None None
     = (straight (- 2), Inr (straight_prepared (- 2) 1))"
  "prepare_spline (\<lambda>zs. zs) (straight (- 2)) (Some 0) (Some 0) (Some eight_meters) None
     = (straight (- 2), Inr (straight_prepared (- 2) 2))"
  "prepare_spline (\<lambda>zs. zs) (straight 0) (Some 0) (Some 0) (Some eight_meters) None
     = (straight 0, Inr (straight_prepared 0 2))"
proof -
  have w: "\<And>x0. with_elevation None (ordered_of (straight x0) [(0, False)])
                   = ordered_of (straight x0) [(0, False)]"
    by (simp add: with_elevation_def elevate_def straight_ordered)
  have l: "\<And>x0. length (straight_spline x0 1) = 6"
    by (simp add: straight_spline_def)
  have p: "\<And>x0. filter (\<lambda>p. path_type p = Pit) (paths (straight x0)) = []"
    by (simp add: straight_fields)
  show "prepare_spline (\<lambda>zs. zs) (straight (- 2)) (Some 0) (Some 0) None None
     = (straight (- 2), Inr (straight_prepared (- 2) 1))"
    by (simp add: prepare_spline_def straight_chain w straight_resample mark_tracks_None
        elevate_pits_def smooth_if_long_def l straight_normalize p scale_track_def Let_def
        straight_prepared_def)
  show "prepare_spline (\<lambda>zs. zs) (straight (- 2)) (Some 0) (Some 0) (Some eight_meters) None
     = (straight (- 2), Inr (straight_prepared (- 2) 2))"
    by (simp add: prepare_spline_def straight_chain w straight_resample mark_tracks_None
        elevate_pits_def smooth_if_long_def l straight_normalize p scale_track_def Let_def
        straight_prepared_def eight_meters_def straight_scaled)
  show "prepare_spline (\<lambda>zs. zs) (straight 0) (Some 0) (Some 0) (Some eight_meters) None
     = (straight 0, Inr (straight_prepared 0 2))"
    by (simp add: prepare_spline_def straight_chain w straight_resample mark_tracks_None
        elevate_pits_def smooth_if_long_def l straight_normalize p scale_track_def Let_def
        straight_prepared_def eight_meters_def straight_scaled)
qed

lemma straight_indices: "[0..<min 2000 (length (straight_spline x0 k))] = [0, 1, 2, 3, 4, 5]"
  by (simp add: straight_spline_def upt_rec)

lemma straight_sf_index:
  "start_finish_index (straight (- 2)) (straight_prepared (- 2) 1) = 2"
  "start_finish_index (straight (- 2)) (straight_prepared (- 2) 2) = 2"
  "start_finish_index (straight 0) (straight_prepared 0 2) = 0"
  by (simp_all add: start_finish_index_def straight_prepared_def find_sf_index_def
       straight_indices origin straight_fields Let_def straight_spline_def sf_step_def on_axis_def
       distance_on_axis lt_inf_def)

lemma straight_rotate:
  "rotate_to_sf 2 (straight_spline (- 2) 1) 4 = (straight_rotated 1, 7)"
  "rotate_to_sf 2 (straight_spline (- 2) 2) 8 = (straight_rotated 2, 14)"
  by (simp_all add: rotate_to_sf_def straight_spline_def Let_def on_axis_def distance_on_axis
       straight_rotated_def)

lemma straight_assembled:
  "splinePoints (assemble (straight (- 2)) (straight_prepared (- 2) 1) a b) = straight_rotated 1"
  "totalLen (assemble (straight (- 2)) (straight_prepared (- 2) 1) a b) = 7"
  "splinePoints (assemble (straight (- 2)) (straight_prepared (- 2) 2) a b) = straight_rotated 2"
  "totalLen (assemble (straight (- 2)) (straight_prepared (- 2) 2) a b) = 14"
  using assemble_sectors [of "straight (- 2)" "straight_prepared (- 2) 1" a b]
    assemble_sectors [of "straight (- 2)" "straight_prepared (- 2) 2" a b]
  by (simp_all add: straight_sf_index)
     (simp_all add: straight_prepared_def straight_rotate)

lemma straight_first_index:
  "first_index_ge (127 / 25) (straight_rotated 1) 0 = 4"
  "first_index_ge (127 / 25 + 127 / 25) (straight_rotated 1) 0 = - 1"
  "first_index_ge (127 / 100) (straight_rotated 1) 0 = 2"
  "first_index_ge (127 / 100 + 127 / 50) (straight_rotated 1) 0 = 4"
  by (simp_all add: straight_rotated_def on_axis_def)

lemma straight_finalized:
  "snd (finalize_track (\<lambda>zs. zs) (straight (- 2)) (Some 0) (Some 0) a b None None)
     = Inr (assemble (straight (- 2)) (straight_prepared (- 2) 1) a b)"
  "snd (finalize_track (\<lambda>zs. zs) (straight (- 2)) (Some 0) (Some 0) a b (Some eight_meters) None)
     = Inr (assemble (straight (- 2)) (straight_prepared (- 2) 2) a b)"
  "snd (finalize_track (\<lambda>zs. zs) (straight 0) (Some 0) (Some 0) a b (Some eight_meters) None)
     = Inr (assemble (straight 0) (straight_prepared 0 2) a b)"
  by (simp_all add: finalize_track_def straight_prepare)

lemma straight_sector_values:
  fixes a b :: real
  defines "out \<equiv> assemble (straight (- 2)) (straight_prepared (- 2) 1) (Some a) (Some b)"
  shows "sector_summary out
     = (a * (254 / 10000), b * (254 / 10000), 7,
        (if a * (254 / 10000) > 0 then first_index_ge (a * (254 / 10000)) (straight_rotated 1) 0
         else - 1),
        (if b * (254 / 10000) > 0
         then first_index_ge (a * (254 / 10000) + b * (254 / 10000)) (straight_rotated 1) 0
         else - 1),
        6)"
proof -
  note A = assemble_sectors [of "straight (- 2)" "straight_prepared (- 2) 1" "Some a" "Some b",
      folded out_def]
  have sp: "splinePoints out = straight_rotated 1" and tl: "totalLen out = 7"
    unfolding out_def by (simp_all add: straight_assembled)
  have l1: "s1LengthMeters out = a * (254 / 10000)" and l2: "s2LengthMeters out = b * (254 / 10000)"
    using A by (simp_all add: dict_get_def)
  have n: "nodesCount out = 6" using A sp by (simp add: straight_rotated_def)
  have i1: "s1EndIndex out = (if a * (254 / 10000) > 0
                              then first_index_ge (a * (254 / 10000)) (straight_rotated 1) 0 else - 1)"
    using A unfolding l1 sp by blast
  have i2: "s2EndIndex out = (if b * (254 / 10000) > 0
                              then first_index_ge (a * (254 / 10000) + b * (254 / 10000))
                                     (straight_rotated 1) 0 else - 1)"
    using A unfolding l1 l2 sp by blast
  show ?thesis
    unfolding sector_summary_def l1 l2 tl n i1 i2 by (rule refl)
qed

lemma straight_sectors:
  "sector_summary (assemble (straight (- 2)) (straight_prepared (- 2) 1) (Some 200) (Some 200))
     = (127 / 25, 127 / 25, 7, 4, - 1, 6)"
  "sector_summary (assemble (straight (- 2)) (straight_prepared (- 2) 1) (Some 50) (Some 100))
     = (127 / 100, 127 / 50, 7, 2, 4, 6)"
  unfolding straight_sector_values
  using straight_first_index by simp_all

text \<open>
  Claim C7 as stated fails: on the 4 m straight, rotated to a total of 7 m, two sectors of
  200 inches (5.08 m) are each positive and shorter than the track, yet the second end
  index is \<open>-1\<close> and so below the first, 4.
\<close>

theorem sector_order_counterexample:
  "map_sum id sector_summary
     (snd (finalize_track (\<lambda>zs. zs) (straight (- 2)) (Some 0) (Some 0) (Some 200) (Some 200) None None))
     = Inr (127 / 25, 127 / 25, 7, 4, - 1, 6)"
  by (simp add: straight_finalized straight_sectors)


theorem sector_indices_witness:
  "snd (finalize_track (\<lambda>zs. zs) (straight (- 2)) (Some 0) (Some 0) (Some 50) (Some 100) None None)
     = Inr (assemble (straight (- 2)) (straight_prepared (- 2) 1) (Some 50) (Some 100))
   \<and> sector_summary (assemble (straight (- 2)) (straight_prepared (- 2) 1) (Some 50) (Some 100))
       = (127 / 100, 127 / 50, 7, 2, 4, 6)
   \<and> 0 \<le> s1EndIndex (assemble (straight (- 2)) (straight_prepared (- 2) 1) (Some 50) (Some 100))
   \<and> s1EndIndex (assemble (straight (- 2)) (straight_prepared (- 2) 1) (Some 50) (Some 100))
       \<le> s2EndIndex (assemble (straight (- 2)) (straight_prepared (- 2) 1) (Some 50) (Some 100))
   \<and> s2EndIndex (assemble (straight (- 2)) (straight_prepared (- 2) 1) (Some 50) (Some 100))
       < int (nodesCount (assemble (straight (- 2)) (straight_prepared (- 2) 1) (Some 50) (Some 100)))"
proof -
  let ?out = "assemble (straight (- 2)) (straight_prepared (- 2) 1) (Some 50) (Some 100)"
  have fin: "snd (finalize_track (\<lambda>zs. zs) (straight (- 2)) (Some 0) (Some 0) (Some 50) (Some 100)
                    None None) = Inr ?out"
    by (rule straight_finalized)
  have sm: "sector_summary ?out = (127 / 100, 127 / 50, 7, 2, 4, 6)"
    by (rule straight_sectors)
  then have h: "0 < s1LengthMeters ?out" "0 < s2LengthMeters ?out"
    "s1LengthMeters ?out + s2LengthMeters ?out \<le> totalLen ?out"
    by (simp_all add: sector_summary_def)
  show ?thesis
    using sector_indices [OF fin] h fin sm by blast
qed

theorem elevation_normalized_witness:
  "snd (finalize_track (\<lambda>zs. zs) (straight (- 2)) (Some 0) (Some 0) (Some 50) (Some 100) None None)
     = Inr (assemble (straight (- 2)) (straight_prepared (- 2) 1) (Some 50) (Some 100))
   \<and> Min (set (elevations (assemble (straight (- 2)) (straight_prepared (- 2) 1) (Some 50) (Some 100))))
       = 0"
  using elevation_normalized [OF straight_finalized(1), of "Some 50" "Some 100"]
    straight_finalized(1) [of "Some 50" "Some 100"]
  by simp










end
